theory Spec2Isabelle
  imports Complex_Main
begin

section \<open>Errors\<close>

text \<open>
  Every exception the modelled code can raise is a value of \<open>error\<close>; a fallible
  function returns \<open>error + 'a\<close> with \<open>Inl\<close> for the exception.
  An \<open>AssertionError\<close> carries the message of the failed \<^verbatim>\<open>assert\<close>, if it has one.
\<close>

datatype error =
    ValueError
  | NotImplementedError
  | NotFoundLookupError
  | AssertionError "string option"
  | IndexError
  | TypeError
  | OverflowError

section \<open>The kernel factory (kernels/matern\_kernel.py)\<close>

subsection \<open>Spaces\<close>

text \<open>
  A space object is represented by its most specific class among those the factory
  dispatches on. \<^verbatim>\<open>Mesh\<close> and \<^verbatim>\<open>Graph\<close> are discrete-spectrum spaces exposing
  \<^verbatim>\<open>num_vertices\<close>; \<^verbatim>\<open>SymmetricPositiveDefiniteMatrices\<close> is a noncompact symmetric
  space (docstring of \<^verbatim>\<open>__new__\<close>). \<^verbatim>\<open>Hyperbolic\<close> is declared in
  \<^verbatim>\<open>spaces/hyperbolic.py\<close> as \<^verbatim>\<open>class Hyperbolic(Space, Hyperboloid)\<close>: it is an instance of
  neither \<^verbatim>\<open>DiscreteSpectrumSpace\<close> nor \<^verbatim>\<open>NoncompactSymmetricSpace\<close>, although
  \<^verbatim>\<open>default_feature_map\<close> has a method registered for it. \<open>DiscreteSpectrumSpace\<close> and
  \<open>NoncompactSymmetricSpace\<close> stand for any other instance of these classes, \<open>Space\<close>
  for any other space.
\<close>

datatype space =
    Mesh int
  | Graph int
  | DiscreteSpectrumSpace
  | Hyperbolic
  | SymmetricPositiveDefiniteMatrices
  | NoncompactSymmetricSpace
  | Space

fun isinstance_DiscreteSpectrumSpace :: "space \<Rightarrow> bool" where
  "isinstance_DiscreteSpectrumSpace (Mesh _) = True"
| "isinstance_DiscreteSpectrumSpace (Graph _) = True"
| "isinstance_DiscreteSpectrumSpace DiscreteSpectrumSpace = True"
| "isinstance_DiscreteSpectrumSpace _ = False"

fun isinstance_NoncompactSymmetricSpace :: "space \<Rightarrow> bool" where
  "isinstance_NoncompactSymmetricSpace SymmetricPositiveDefiniteMatrices = True"
| "isinstance_NoncompactSymmetricSpace NoncompactSymmetricSpace = True"
| "isinstance_NoncompactSymmetricSpace _ = False"

fun isinstance_Graph_or_Mesh :: "space \<Rightarrow> bool" where
  "isinstance_Graph_or_Mesh (Mesh _) = True"
| "isinstance_Graph_or_Mesh (Graph _) = True"
| "isinstance_Graph_or_Mesh _ = False"

fun num_vertices :: "space \<Rightarrow> int" where
  "num_vertices (Mesh n) = n"
| "num_vertices (Graph n) = n"
| "num_vertices _ = 0"

subsection \<open>Kernels and feature maps as constructor calls\<close>

text \<open>
  The kernel classes and the feature-map builders are represented by the call that
  creates them, with its arguments: the factory's result says which object was built
  from what. \<open>'k\<close> is the type of the random key; the \<^verbatim>\<open>kernel\<close> argument of a
  feature map may be \<^verbatim>\<open>None\<close>.
\<close>

datatype 'k kernel =
    MaternKarhunenLoeveKernel space int bool
  | MaternFeatureMapKernel space "'k feature_map" 'k bool
and 'k feature_map =
    deterministic_feature_map_compact space "'k kernel option"
  | random_phase_feature_map_noncompact space int
  | rejection_sampling_feature_map_hyperbolic space int
  | rejection_sampling_feature_map_spd space int

text \<open>What the factory has built so far, in the order of the calls.\<close>

datatype 'k event =
    BuiltKernel "'k kernel"
  | BuiltFeatureMap "'k feature_map"

datatype 'k factory_result =
    KernelOnly "'k kernel"
  | KernelAndFeatureMap "'k kernel" "'k feature_map"

subsection \<open>Defaults\<close>

definition DEFAULT_NUM_EIGENFUNCTIONS :: int where
  "DEFAULT_NUM_EIGENFUNCTIONS = 1000"

definition DEFAULT_NUM_LEVELS :: int where
  "DEFAULT_NUM_LEVELS = 35"

definition DEFAULT_NUM_RANDOM_PHASES :: int where
  "DEFAULT_NUM_RANDOM_PHASES = 3000"

text \<open>
  \<^verbatim>\<open>default_num\<close> is dispatched on the class of the space, the most specific
  registered class first; a space with no registered class (\<^verbatim>\<open>Hyperbolic\<close> among
  them) has no method.
\<close>

fun default_num :: "space \<Rightarrow> error + int" where
  "default_num (Mesh nv) = Inr (min DEFAULT_NUM_EIGENFUNCTIONS nv)"
| "default_num (Graph nv) = Inr (min DEFAULT_NUM_EIGENFUNCTIONS nv)"
| "default_num DiscreteSpectrumSpace = Inr DEFAULT_NUM_LEVELS"
| "default_num Hyperbolic = Inl NotFoundLookupError"
| "default_num SymmetricPositiveDefiniteMatrices = Inr DEFAULT_NUM_RANDOM_PHASES"
| "default_num NoncompactSymmetricSpace = Inr DEFAULT_NUM_RANDOM_PHASES"
| "default_num Space = Inl NotFoundLookupError"

text \<open>
  \<^verbatim>\<open>default_feature_map(space, *, num, kernel)\<close>, dispatched the same way. The noncompact
  branch of the factory passes \<^verbatim>\<open>kernel=None\<close>; the discrete-spectrum method hands
  its kernel on as it is.
\<close>

fun default_feature_map :: "space \<Rightarrow> int \<Rightarrow> 'k kernel option \<Rightarrow> error + 'k feature_map" where
  "default_feature_map Hyperbolic num kern =
     Inr (rejection_sampling_feature_map_hyperbolic Hyperbolic num)"
| "default_feature_map SymmetricPositiveDefiniteMatrices num kern =
     Inr (rejection_sampling_feature_map_spd SymmetricPositiveDefiniteMatrices num)"
| "default_feature_map NoncompactSymmetricSpace num kern =
     Inr (random_phase_feature_map_noncompact NoncompactSymmetricSpace num)"
| "default_feature_map Space num kern = Inl NotFoundLookupError"
| "default_feature_map space num kern =
     Inr (deterministic_feature_map_compact space kern)"

text \<open>
  \<^verbatim>\<open>num or default_num(space)\<close>: Python's \<^verbatim>\<open>or\<close> returns its left operand when it is
  truthy and evaluates the right one otherwise. \<^verbatim>\<open>None\<close> and \<open>0\<close> are the falsy
  values of an optional integer.
\<close>

definition num_or_default :: "int option \<Rightarrow> space \<Rightarrow> error + int" where
  "num_or_default num space =
     (case num of
        None \<Rightarrow> default_num space
      | Some n \<Rightarrow> if n = 0 then default_num space else Inr n)"

subsection \<open>\<^verbatim>\<open>MaternGeometricKernel.__new__\<close>\<close>

text \<open>
  The factory returns the list of objects it has built, in order, together with its
  result or the exception it raised. \<open>kwargs\<close> is the dictionary of extra keyword
  arguments.
\<close>

definition finish :: "bool \<Rightarrow> 'k kernel \<Rightarrow> 'k feature_map \<Rightarrow> 'k factory_result" where
  "finish return_feature_map kern fmap =
     (if return_feature_map then KernelAndFeatureMap kern fmap
      else KernelOnly kern)"

definition MaternGeometricKernel ::
  "space \<Rightarrow> int option \<Rightarrow> bool \<Rightarrow> bool \<Rightarrow> (string \<rightharpoonup> 'k)
     \<Rightarrow> 'k event list \<times> (error + 'k factory_result)" where
  "MaternGeometricKernel space num normalise return_feature_map kwargs =
     (if isinstance_DiscreteSpectrumSpace space then
        (case num_or_default num space of
           Inl e \<Rightarrow> ([], Inl e)
         | Inr n \<Rightarrow>
            (let kern = MaternKarhunenLoeveKernel space n normalise in
             case default_feature_map space n (Some kern) of
               Inl e \<Rightarrow> ([BuiltKernel kern], Inl e)
             | Inr fmap \<Rightarrow>
                 ([BuiltKernel kern, BuiltFeatureMap fmap],
                  Inr (finish return_feature_map kern fmap))))
      else if isinstance_NoncompactSymmetricSpace space then
        (case num_or_default num space of
           Inl e \<Rightarrow> ([], Inl e)
         | Inr n \<Rightarrow>
            (case kwargs ''key'' of
               None \<Rightarrow> ([], Inl ValueError)
             | Some key \<Rightarrow>
                (case default_feature_map space n None of
                   Inl e \<Rightarrow> ([], Inl e)
                 | Inr fmap \<Rightarrow>
                    (let kern = MaternFeatureMapKernel space fmap key normalise in
                     ([BuiltFeatureMap fmap, BuiltKernel kern],
                      Inr (finish return_feature_map kern fmap))))))
      else ([], Inl NotImplementedError))"

section \<open>The circle's eigenfunctions (spaces/circle.py)\<close>

text \<open>
  Tensors of floating-point numbers are modelled by lists of reals: a vector is a
  list, an \<open>[N, M]\<close> matrix a list of \<open>N\<close> rows, an \<open>[N, N2, L]\<close> tensor a list of
  matrices. Rounding is not modelled. A point set \<open>X\<close> of shape \<open>[N, 2]\<close> is a list of
  pairs \<open>(X[n, 0], X[n, 1])\<close>.
\<close>

text \<open>The two-argument arctangent \<^verbatim>\<open>atan2(y, x)\<close>, the angle of the point \<open>(x, y)\<close> in \<open>(-\<pi>, \<pi>]\<close>.\<close>

definition atan2 :: "real \<Rightarrow> real \<Rightarrow> real" where
  "atan2 y x =
     (if 0 < x then arctan (y / x)
      else if x < 0 then (if 0 \<le> y then arctan (y / x) + pi else arctan (y / x) - pi)
      else if 0 < y then pi / 2
      else if y < 0 then - (pi / 2)
      else 0)"

definition cartesian_to_polar :: "(real \<times> real) list \<Rightarrow> real list" where
  "cartesian_to_polar X = map (\<lambda>(x0, x1). atan2 x1 x0) X"

text \<open>Python's \<^verbatim>\<open>range(n)\<close> for an integer \<open>n\<close>: empty when \<open>n \<le> 0\<close>.\<close>

definition py_range :: "int \<Rightarrow> int list" where
  "py_range n = map int [0..<nat n]"

record SinCosEigenfunctions =
  num_eigenfunctions :: int
  num_levels :: int

definition parity_message :: string where
  "parity_message =
     ''num_eigenfunctions needs to be odd to include all eigenfunctions within a level.''"

text \<open>
  \<^verbatim>\<open>SinCosEigenfunctions.__init__\<close>: two assertions, in this order, then the two fields.
  Python's \<^verbatim>\<open>%\<close> and \<^verbatim>\<open>//\<close> on integers round towards minus infinity, as \<open>mod\<close> and
  \<open>div\<close> on \<open>int\<close> do.
\<close>

definition SinCosEigenfunctions_init :: "int \<Rightarrow> error + SinCosEigenfunctions" where
  "SinCosEigenfunctions_init n =
     (if \<not> (n mod 2 = 1) then Inl (AssertionError (Some parity_message))
      else if \<not> (n \<ge> 1) then Inl (AssertionError None)
      else Inr \<lparr>num_eigenfunctions = n, num_levels = n div 2 + 1\<rparr>)"

definition num_eigenfunctions_per_level :: "SinCosEigenfunctions \<Rightarrow> int list" where
  "num_eigenfunctions_per_level ef =
     map (\<lambda>level. if level = 0 then 1 else 2) (py_range (num_levels ef))"

text \<open>
  \<^verbatim>\<open>__call__\<close>: the loop appends to \<^verbatim>\<open>values\<close> one column of shape \<open>[N, 1]\<close> for level 0
  and two for every other level; \<^verbatim>\<open>tf.concat(values, axis=1)\<close> puts the columns side by
  side. \<^verbatim>\<open>const\<close> is \<^verbatim>\<open>2.0 ** 0.5\<close>.
\<close>

definition call_step :: "real list \<Rightarrow> real list list \<Rightarrow> int \<Rightarrow> real list list" where
  "call_step theta values level =
     (if level = 0 then values @ [map (\<lambda>t. 1) theta]
      else (let freq = 1 * real_of_int level in
            (values @ [map (\<lambda>t. sqrt 2 * cos (freq * t)) theta])
                    @ [map (\<lambda>t. sqrt 2 * sin (freq * t)) theta]))"

definition concat_axis1 :: "nat \<Rightarrow> real list list \<Rightarrow> real list list" where
  "concat_axis1 N columns = map (\<lambda>n. map (\<lambda>c. c ! n) columns) [0..<N]"

definition call :: "SinCosEigenfunctions \<Rightarrow> (real \<times> real) list \<Rightarrow> real list list" where
  "call ef X =
     (let theta = cartesian_to_polar X;
          values = foldl (call_step theta) [] (py_range (num_levels ef))
      in concat_axis1 (length theta) values)"

text \<open>
  \<^verbatim>\<open>_addition_theorem\<close>: entry \<open>[n, n2, l]\<close> is
  \<^verbatim>\<open>num_eigenfunctions_per_level[l] * cos(freqs[l] * (theta[n] - theta2[n2]))\<close> with
  \<^verbatim>\<open>freqs = range(num_levels)\<close>.
\<close>

definition addition_theorem ::
  "SinCosEigenfunctions \<Rightarrow> (real \<times> real) list \<Rightarrow> (real \<times> real) list \<Rightarrow> real list list list" where
  "addition_theorem ef X X2 =
     (let theta = cartesian_to_polar X;
          theta2 = cartesian_to_polar X2;
          freqs = map real_of_int (py_range (num_levels ef))
      in map (\<lambda>t. map (\<lambda>t2.
           map2 (\<lambda>nl f. real_of_int nl * cos (f * (t - t2)))
             (num_eigenfunctions_per_level ef) freqs) theta2) theta)"

text \<open>\<^verbatim>\<open>_addition_theorem_diag\<close>: a matrix of ones of shape \<open>[N, L]\<close> times the per-level counts.\<close>

definition addition_theorem_diag ::
  "SinCosEigenfunctions \<Rightarrow> (real \<times> real) list \<Rightarrow> real list list" where
  "addition_theorem_diag ef X =
     (let N = length X;
          ones = replicate N (replicate (nat (num_levels ef)) (1::real))
      in map (\<lambda>row. map2 (\<lambda>one nl. one * real_of_int nl) row
                (num_eigenfunctions_per_level ef)) ones)"

section \<open>Array primitives (lab\_extras/numpy/sparse\_extras.py)\<close>

subsection \<open>Dense and sparse arrays\<close>

text \<open>
  A dense array is a number (a 0-dimensional array) or a sequence of arrays along its
  first axis; entries are real numbers. A sparse array is a matrix given by its shape
  and its stored entries; a position with no stored entry holds 0, and of two entries
  stored for one position the first one counts.
\<close>

datatype ndarray = Num real | Arr "ndarray list"

record sparse =
  nrows :: nat
  ncols :: nat
  entries :: "((nat \<times> nat) \<times> real) list"

datatype array = Dense ndarray | Sparse sparse

fun issparse :: "array \<Rightarrow> bool" where
  "issparse (Sparse _) = True"
| "issparse (Dense _) = False"

definition sp_get :: "sparse \<Rightarrow> nat \<Rightarrow> nat \<Rightarrow> real" where
  "sp_get s i j = (case map_of (entries s) (i, j) of None \<Rightarrow> 0 | Some v \<Rightarrow> v)"

text \<open>\<^verbatim>\<open>L.toarray()\<close>: the dense matrix with the same entries.\<close>

definition toarray :: "sparse \<Rightarrow> ndarray" where
  "toarray s = Arr (map (\<lambda>i. Arr (map (\<lambda>j. Num (sp_get s i j)) [0..<ncols s])) [0..<nrows s])"

subsection \<open>\<^verbatim>\<open>eigenpairs\<close>\<close>

text \<open>
  \<^verbatim>\<open>eigenpairs(L, k)\<close> changes \<open>L\<close> under the condition
  \<^verbatim>\<open>sp.issparse(L) and (k == L.shape[0])\<close> (the shape is read for a sparse \<open>L\<close> only)
  and hands the outcome to the solver \<^verbatim>\<open>sp.linalg.eigsh(L, k, sigma=1e-8)\<close>. The solver
  is a library function and a parameter here.
\<close>

definition eigenpairs :: "(array \<Rightarrow> int \<Rightarrow> real \<Rightarrow> 'r) \<Rightarrow> array \<Rightarrow> int \<Rightarrow> 'r" where
  "eigenpairs eigsh L k =
     (let L1 = (case L of
                  Sparse s \<Rightarrow> if k = int (nrows s) then Dense (toarray s) else L
                | Dense _ \<Rightarrow> L)
      in eigsh L1 k (1 / 10 ^ 8))"

subsection \<open>\<^verbatim>\<open>set_value\<close>\<close>

text \<open>
  \<^verbatim>\<open>set_value\<close> is registered for \<^verbatim>\<open>Union[SparseArray, _Numeric]\<close>. An array object is a
  numpy array with its dtype, or a sparse matrix with its class (one of the seven of
  the \<^verbatim>\<open>SparseArray\<close> union) and its dtype. Plain numbers, which \<^verbatim>\<open>_Numeric\<close> admits as
  well, are not arrays and are left out; entries and values are finite real numbers.
\<close>

datatype sparse_format =
    bsr_matrix | coo_matrix | csc_matrix | csr_matrix | dia_matrix | dok_matrix | lil_matrix

text \<open>
  A dtype is known by what it makes of a Python float that is stored into an array
  of that dtype. \<open>float64\<close> stores the float as it is; any other dtype converts it, or
  raises.
\<close>

datatype dtype = float64 | other_dtype "real \<Rightarrow> error + real"

fun cast :: "dtype \<Rightarrow> real \<Rightarrow> error + real" where
  "cast float64 v = Inr v"
| "cast (other_dtype conv) v = conv v"

text \<open>The conversion of an integer dtype on values within its range: truncation towards zero.\<close>

definition truncating :: dtype where
  "truncating = other_dtype (\<lambda>v. Inr (real_of_int (if 0 \<le> v then \<lfloor>v\<rfloor> else \<lceil>v\<rceil>)))"

datatype object = NDArray dtype ndarray | SparseMatrix sparse_format dtype sparse

fun contents :: "object \<Rightarrow> array" where
  "contents (NDArray dt a) = Dense a"
| "contents (SparseMatrix fmt dt s) = Sparse s"

fun dtype_of :: "object \<Rightarrow> dtype" where
  "dtype_of (NDArray dt a) = dt"
| "dtype_of (SparseMatrix fmt dt s) = dt"

text \<open>
  Item assignment on a sparse matrix: \<^verbatim>\<open>coo_matrix\<close> and \<^verbatim>\<open>dia_matrix\<close> do not support it
  (\<open>TypeError\<close>), \<^verbatim>\<open>bsr_matrix\<close> does not implement it (\<open>NotImplementedError\<close>); the
  other four classes assign.
\<close>

fun item_assignment_error :: "sparse_format \<Rightarrow> error option" where
  "item_assignment_error coo_matrix = Some TypeError"
| "item_assignment_error dia_matrix = Some TypeError"
| "item_assignment_error bsr_matrix = Some NotImplementedError"
| "item_assignment_error csc_matrix = None"
| "item_assignment_error csr_matrix = None"
| "item_assignment_error dok_matrix = None"
| "item_assignment_error lil_matrix = None"

fun assignable :: "object \<Rightarrow> bool" where
  "assignable (NDArray dt a) = True"
| "assignable (SparseMatrix fmt dt s) = (item_assignment_error fmt = None)"

text \<open>
  Arrays are mutable objects: the heap is the list of the objects allocated so far,
  an object's address its position in the list. \<^verbatim>\<open>a.copy()\<close> allocates a new object
  with the class, the dtype and the contents of \<open>a\<close>.
\<close>

type_synonym addr = nat
type_synonym heap = "object list"

definition copy :: "heap \<Rightarrow> addr \<Rightarrow> heap \<times> addr" where
  "copy h a = (h @ [h ! a], length h)"

text \<open>
  An integer index into an axis of length \<open>n\<close>: \<open>0 \<le> i < n\<close> is position \<open>i\<close>,
  \<open>-n \<le> i < 0\<close> is position \<open>n + i\<close>, anything else raises \<open>IndexError\<close>.
\<close>

definition norm_index :: "nat \<Rightarrow> int \<Rightarrow> error + nat" where
  "norm_index n i =
     (if 0 \<le> i \<and> i < int n then Inr (nat i)
      else if i < 0 \<and> - int n \<le> i then Inr (nat (int n + i))
      else Inl IndexError)"

text \<open>Assigning a scalar to a sub-array sets every element of it.\<close>

fun fill :: "real \<Rightarrow> ndarray \<Rightarrow> ndarray" where
  "fill w (Num x) = Num w"
| "fill w (Arr xs) = Arr (map (fill w) xs)"

text \<open>
  \<^verbatim>\<open>a[index] = value\<close> on an object. A sparse matrix of a class without item
  assignment raises whatever the index. Otherwise the index is checked against the
  first axis (a 0-dimensional array cannot be indexed), the value is converted to the
  dtype of the array, and the element, sub-array or matrix row at \<open>index\<close> is set to
  the converted value.
\<close>

fun setitem :: "object \<Rightarrow> int \<Rightarrow> real \<Rightarrow> error + object" where
  "setitem (NDArray dt (Num x)) i v = Inl IndexError"
| "setitem (NDArray dt (Arr xs)) i v =
     (case norm_index (length xs) i of
        Inl e \<Rightarrow> Inl e
      | Inr p \<Rightarrow>
         (case cast dt v of
            Inl e \<Rightarrow> Inl e
          | Inr w \<Rightarrow> Inr (NDArray dt (Arr (xs[p := fill w (xs ! p)])))))"
| "setitem (SparseMatrix fmt dt s) i v =
     (case item_assignment_error fmt of
        Some e \<Rightarrow> Inl e
      | None \<Rightarrow>
         (case norm_index (nrows s) i of
            Inl e \<Rightarrow> Inl e
          | Inr p \<Rightarrow>
             (case cast dt v of
                Inl e \<Rightarrow> Inl e
              | Inr w \<Rightarrow>
                  Inr (SparseMatrix fmt dt
                    (s\<lparr>entries := map (\<lambda>j. ((p, j), w)) [0..<ncols s] @ entries s\<rparr>)))))"

text \<open>
  \<^verbatim>\<open>set_value(a, index, value)\<close>: copy, assign into the copy, return the copy. The
  result is the heap after the call with the address returned or the exception raised.
\<close>

definition set_value :: "heap \<Rightarrow> addr \<Rightarrow> int \<Rightarrow> real \<Rightarrow> heap \<times> (error + addr)" where
  "set_value h a index v =
     (let (h1, b) = copy h a in
      case setitem (h1 ! b) index v of
        Inl e \<Rightarrow> (h1, Inl e)
      | Inr arr \<Rightarrow> (h1[b := arr], Inr b))"

text \<open>
  Reading an array along its first axis: its length (none for a 0-dimensional array,
  written 0) and the item at a position.
\<close>

fun len0 :: "array \<Rightarrow> nat" where
  "len0 (Dense (Num x)) = 0"
| "len0 (Dense (Arr xs)) = length xs"
| "len0 (Sparse s) = nrows s"

fun item :: "array \<Rightarrow> nat \<Rightarrow> ndarray" where
  "item (Dense (Num x)) p = Num x"
| "item (Dense (Arr xs)) p = xs ! p"
| "item (Sparse s) p = Arr (map (\<lambda>j. Num (sp_get s p j)) [0..<ncols s])"

section \<open>Row normalisation of the random-phase features (kernels/feature\_maps.py)\<close>

text \<open>
  The last three statements of \<^verbatim>\<open>_map\<close> in \<^verbatim>\<open>random_phase_feature_map_noncompact\<close>, row
  by row, in floating-point arithmetic. A floating-point number is a finite real, an
  infinity or not a number; zero has no sign here (the denominators below are square
  roots, never a negative zero).
\<close>

datatype npfloat = Finite real | NaN | PosInf | NegInf

text \<open>
  Every operation computes the exact result of finite operands and rounds it with
  \<open>rnd\<close>, which may underflow to zero and overflow to an infinity. \<open>rnd\<close> is a parameter:
  the rounding of the dtype of \<open>X\<close>. Operands that are infinite or not a number follow
  the IEEE rules; a division by zero raises nothing and gives not-a-number for
  \<open>0 / 0\<close> and an infinity otherwise.
\<close>

fun is_finite :: "npfloat \<Rightarrow> bool" where
  "is_finite (Finite a) = True"
| "is_finite _ = False"

fun is_positive :: "npfloat \<Rightarrow> bool" where
  "is_positive (Finite a) = (0 < a)"
| "is_positive PosInf = True"
| "is_positive _ = False"

definition infinity :: "bool \<Rightarrow> npfloat" where
  "infinity positive = (if positive then PosInf else NegInf)"

fun fl_mul :: "(real \<Rightarrow> npfloat) \<Rightarrow> npfloat \<Rightarrow> npfloat \<Rightarrow> npfloat" where
  "fl_mul rnd (Finite a) (Finite b) = rnd (a * b)"
| "fl_mul rnd NaN y = NaN"
| "fl_mul rnd x NaN = NaN"
| "fl_mul rnd x y =
     (if x = Finite 0 \<or> y = Finite 0 then NaN
      else infinity (is_positive x = is_positive y))"

fun fl_add :: "(real \<Rightarrow> npfloat) \<Rightarrow> npfloat \<Rightarrow> npfloat \<Rightarrow> npfloat" where
  "fl_add rnd (Finite a) (Finite b) = rnd (a + b)"
| "fl_add rnd NaN y = NaN"
| "fl_add rnd x NaN = NaN"
| "fl_add rnd PosInf NegInf = NaN"
| "fl_add rnd NegInf PosInf = NaN"
| "fl_add rnd PosInf y = PosInf"
| "fl_add rnd x PosInf = PosInf"
| "fl_add rnd NegInf y = NegInf"
| "fl_add rnd x NegInf = NegInf"

fun fl_sqrt :: "(real \<Rightarrow> npfloat) \<Rightarrow> npfloat \<Rightarrow> npfloat" where
  "fl_sqrt rnd (Finite a) = (if a < 0 then NaN else rnd (sqrt a))"
| "fl_sqrt rnd PosInf = PosInf"
| "fl_sqrt rnd NegInf = NaN"
| "fl_sqrt rnd NaN = NaN"

fun fl_div :: "(real \<Rightarrow> npfloat) \<Rightarrow> npfloat \<Rightarrow> npfloat \<Rightarrow> npfloat" where
  "fl_div rnd (Finite a) (Finite b) =
     (if b \<noteq> 0 then rnd (a / b)
      else if a = 0 then NaN
      else infinity (0 < a))"
| "fl_div rnd NaN y = NaN"
| "fl_div rnd x NaN = NaN"
| "fl_div rnd (Finite a) y = Finite 0"
| "fl_div rnd x (Finite b) = infinity (is_positive x = (0 \<le> b))"
| "fl_div rnd x y = NaN"

text \<open>
  A rounding with the range of double precision and no rounding error inside the
  range, for the examples: magnitudes up to \<open>1 / 2 ^ 1075\<close> round to zero, magnitudes
  from \<open>2 ^ 1024 - 2 ^ 970\<close> on to an infinity.
\<close>

definition round_range :: "real \<Rightarrow> npfloat" where
  "round_range x =
     (if \<bar>x\<bar> \<le> 1 / 2 ^ 1075 then Finite 0
      else if 2 ^ 1024 - 2 ^ 970 \<le> \<bar>x\<bar> then infinity (0 < x)
      else Finite x)"

text \<open>
  \<^verbatim>\<open>out = B.concat(B.real(p) * c, B.imag(p) * c, axis=-1)\<close>, one row: \<open>p_row\<close> holds the
  real and the imaginary part of each entry of a row of the \<open>[N, O]\<close> complex matrix
  returned by the space's \<^verbatim>\<open>power_function\<close>, \<open>c\<close> the \<open>O\<close> numbers returned by
  \<^verbatim>\<open>inv_harish_chandra\<close>; both belong to the space and are inputs here.
\<close>

definition features_row ::
  "(real \<Rightarrow> npfloat) \<Rightarrow> (npfloat \<times> npfloat) list \<Rightarrow> npfloat list \<Rightarrow> npfloat list" where
  "features_row rnd p_row c =
     map2 (\<lambda>z k. fl_mul rnd (fst z) k) p_row c @ map2 (\<lambda>z k. fl_mul rnd (snd z) k) p_row c"

text \<open>
  \<^verbatim>\<open>B.sum\<close> adds the entries of a row in an order that is the backend's own, rounding
  after every addition: the sum is a parameter \<open>fsum\<close>. Adding from left to right is
  one such sum, used in the examples.
\<close>

definition fl_sum :: "(real \<Rightarrow> npfloat) \<Rightarrow> npfloat list \<Rightarrow> npfloat" where
  "fl_sum rnd xs = foldl (fl_add rnd) (Finite 0) xs"

text \<open>\<^verbatim>\<open>normalizer = B.sqrt(B.sum(out**2, axis=-1, squeeze=False))\<close>, one row.\<close>

definition normalizer ::
  "(real \<Rightarrow> npfloat) \<Rightarrow> (npfloat list \<Rightarrow> npfloat) \<Rightarrow> npfloat list \<Rightarrow> npfloat" where
  "normalizer rnd fsum out = fl_sqrt rnd (fsum (map (\<lambda>x. fl_mul rnd x x) out))"

text \<open>\<^verbatim>\<open>out = out / normalizer\<close>, one row.\<close>

definition normalize_row ::
  "(real \<Rightarrow> npfloat) \<Rightarrow> (npfloat list \<Rightarrow> npfloat) \<Rightarrow> npfloat list \<Rightarrow> npfloat list" where
  "normalize_row rnd fsum out = map (\<lambda>x. fl_div rnd x (normalizer rnd fsum out)) out"

definition random_phase_features ::
  "(real \<Rightarrow> npfloat) \<Rightarrow> (npfloat list \<Rightarrow> npfloat) \<Rightarrow> (npfloat \<times> npfloat) list list
     \<Rightarrow> npfloat list \<Rightarrow> npfloat list list" where
  "random_phase_features rnd fsum p c =
     map (\<lambda>p_row. normalize_row rnd fsum (features_row rnd p_row c)) p"

section \<open>Deterministic wrappers (utils/utils.py)\<close>

text \<open>
  An argument value is a random key or any other value. A Python function is given
  by what \<^verbatim>\<open>inspect.getfullargspec\<close> reports of it (the names of its positional and of
  its keyword-only parameters) and by its body, which maps the positional arguments,
  the keyword arguments and the state of the world (where the random generators
  live) to a result and a new state of the world.
\<close>

datatype ('k, 'v) pyval = KeyVal 'k | Val 'v

record ('k, 'v, 's, 'r) pyfun =
  args :: "string list"
  kwonlyargs :: "string list"
  body :: "('k, 'v) pyval list \<Rightarrow> (string \<rightharpoonup> ('k, 'v) pyval) \<Rightarrow> 's \<Rightarrow> 'r \<times> 's"

datatype key_argtype = KeyPos | KeyKwonly

text \<open>\<^verbatim>\<open>xs.index(x)\<close> for an \<open>x\<close> that occurs in \<open>xs\<close>: the first position of \<open>x\<close>.\<close>

fun list_index :: "'a list \<Rightarrow> 'a \<Rightarrow> nat" where
  "list_index [] x = 0"
| "list_index (y # ys) x = (if y = x then 0 else Suc (list_index ys x))"

text \<open>
  \<^verbatim>\<open>make_deterministic(f, key)\<close>, called in the world \<open>s0\<close>. The two helpers of
  \<^verbatim>\<open>lab_extras\<close> are parameters: \<^verbatim>\<open>get_random_state(key)\<close> reads the random state of a
  key in the current world, \<^verbatim>\<open>restore_random_state(key, state)\<close> returns a key and the
  world it has left. The wrapper \<^verbatim>\<open>deterministic_f(*args, **kwargs)\<close> has no named
  parameters of its own.
\<close>

definition deterministic_f ::
  "('k \<Rightarrow> 'st \<Rightarrow> 's \<Rightarrow> 'k \<times> 's) \<Rightarrow> ('k, 'v, 's, 'r) pyfun \<Rightarrow> 'k \<Rightarrow> 'st \<Rightarrow> key_argtype \<Rightarrow> nat
     \<Rightarrow> ('k, 'v) pyval list \<Rightarrow> (string \<rightharpoonup> ('k, 'v) pyval) \<Rightarrow> 's \<Rightarrow> 'r \<times> 's" where
  "deterministic_f restore_random_state f key saved_random_state key_argtype key_position
       as kwargs s =
     (let (restored_key, s1) = restore_random_state key saved_random_state s in
      case key_argtype of
        KeyKwonly \<Rightarrow> body f as (kwargs(''key'' \<mapsto> KeyVal restored_key)) s1
      | KeyPos \<Rightarrow>
          body f (take key_position as @ [KeyVal restored_key] @ drop key_position as)
            kwargs s1)"

definition make_deterministic ::
  "('k \<Rightarrow> 's \<Rightarrow> 'st) \<Rightarrow> ('k \<Rightarrow> 'st \<Rightarrow> 's \<Rightarrow> 'k \<times> 's) \<Rightarrow> ('k, 'v, 's, 'r) pyfun \<Rightarrow> 'k \<Rightarrow> 's
     \<Rightarrow> ('k, 'v, 's, 'r) pyfun" where
  "make_deterministic get_random_state restore_random_state f key s0 =
     (let f_varnames = args f;
          key_argtype =
            (if ''key'' \<in> set f_varnames then Some KeyPos
             else if ''key'' \<in> set (kwonlyargs f) then Some KeyKwonly
             else None);
          key_position = list_index f_varnames ''key''
      in case key_argtype of
           None \<Rightarrow> f
         | Some t \<Rightarrow>
             (let saved_random_state = get_random_state key s0
              in \<lparr>args = [], kwonlyargs = [],
                  body = deterministic_f restore_random_state f key saved_random_state t
                           key_position\<rparr>))"

text \<open>
  What a function can see of an argument in a world: of a key its random state, of
  any other value the value.
\<close>

fun view :: "('k \<Rightarrow> 's \<Rightarrow> 'st) \<Rightarrow> 's \<Rightarrow> ('k, 'v) pyval \<Rightarrow> ('st, 'v) pyval" where
  "view get_random_state s (KeyVal k) = KeyVal (get_random_state k s)"
| "view get_random_state s (Val v) = Val v"

fun is_Val :: "('k, 'v) pyval \<Rightarrow> bool" where
  "is_Val (Val v) = True"
| "is_Val (KeyVal k) = False"

text \<open>
  An instance used as an example: generators with a state, as in the numpy backend.
  The world maps a generator to its state; a function \<open>draw(x, key)\<close> returns \<open>x\<close> plus
  the state of its generator and advances the generator.
\<close>

definition np_get_random_state :: "nat \<Rightarrow> (nat \<Rightarrow> nat) \<Rightarrow> nat" where
  "np_get_random_state key s = s key"

definition np_restore_random_state :: "nat \<Rightarrow> nat \<Rightarrow> (nat \<Rightarrow> nat) \<Rightarrow> nat \<times> (nat \<Rightarrow> nat)" where
  "np_restore_random_state key state s = (key, s(key := state))"

definition draw :: "(nat, int, nat \<Rightarrow> nat, int) pyfun" where
  "draw = \<lparr>args = [''x'', ''key''], kwonlyargs = [],
           body = (\<lambda>as kwargs s.
             case as of
               [Val x, KeyVal key] \<Rightarrow> (x + int (s key), s(key := Suc (s key)))
             | _ \<Rightarrow> (0, s))\<rparr>"

definition draw_result :: "(nat, int) pyval list \<Rightarrow> (string \<rightharpoonup> (nat, int) pyval) \<Rightarrow> int" where
  "draw_result vs kwargs = (case vs of [Val x, KeyVal state] \<Rightarrow> x + int state | _ \<Rightarrow> 0)"

section \<open>Properties of the kernel factory\<close>

lemma num_or_default_None: "num_or_default None space = default_num space"
  by (simp add: num_or_default_def)

lemma num_or_default_zero: "num_or_default (Some 0) space = default_num space"
  by (simp add: num_or_default_def)

lemma num_or_default_nonzero: "n \<noteq> 0 \<Longrightarrow> num_or_default (Some n) space = Inr n"
  by (simp add: num_or_default_def)

lemma default_num_noncompact:
  "isinstance_NoncompactSymmetricSpace space \<Longrightarrow> default_num space = Inr DEFAULT_NUM_RANDOM_PHASES"
  by (cases space) simp_all

lemma num_or_default_noncompact:
  assumes "isinstance_NoncompactSymmetricSpace space"
  shows "\<exists>n. num_or_default num space = Inr n"
proof (cases num)
  case None
  then show ?thesis by (simp add: num_or_default_def default_num_noncompact [OF assms])
next
  case (Some m)
  then show ?thesis by (simp add: num_or_default_def default_num_noncompact [OF assms])
qed

lemma default_num_graph_mesh:
  "isinstance_Graph_or_Mesh space \<Longrightarrow>
     default_num space = Inr (min DEFAULT_NUM_EIGENFUNCTIONS (num_vertices space))"
  by (cases space) simp_all

lemma default_num_discrete_other:
  "isinstance_DiscreteSpectrumSpace space \<Longrightarrow> \<not> isinstance_Graph_or_Mesh space \<Longrightarrow>
     default_num space = Inr DEFAULT_NUM_LEVELS"
  by (cases space) simp_all

lemma default_feature_map_discrete:
  "isinstance_DiscreteSpectrumSpace space \<Longrightarrow>
     default_feature_map space n kern = Inr (deterministic_feature_map_compact space kern)"
  by (cases space) simp_all

lemma default_feature_map_noncompact:
  "isinstance_NoncompactSymmetricSpace space \<Longrightarrow>
     \<exists>fmap. default_feature_map space n kern = Inr fmap"
  by (cases space) simp_all

lemma noncompact_not_discrete:
  "isinstance_NoncompactSymmetricSpace space \<Longrightarrow> \<not> isinstance_DiscreteSpectrumSpace space"
  by (cases space) simp_all

lemma factory_discrete:
  assumes "isinstance_DiscreteSpectrumSpace space" and "num_or_default num space = Inr n"
  shows "MaternGeometricKernel space num normalise return_feature_map kwargs =
    ([BuiltKernel (MaternKarhunenLoeveKernel space n normalise),
      BuiltFeatureMap (deterministic_feature_map_compact space
         (Some (MaternKarhunenLoeveKernel space n normalise)))],
     Inr (finish return_feature_map (MaternKarhunenLoeveKernel space n normalise)
       (deterministic_feature_map_compact space
         (Some (MaternKarhunenLoeveKernel space n normalise)))))"
  using assms by (simp add: MaternGeometricKernel_def default_feature_map_discrete Let_def)

lemma factory_noncompact_no_key:
  assumes "isinstance_NoncompactSymmetricSpace space" and "kwargs ''key'' = None"
  shows "MaternGeometricKernel space num normalise return_feature_map kwargs = ([], Inl ValueError)"
proof -
  obtain n where "num_or_default num space = Inr n"
    using num_or_default_noncompact [OF assms(1)] by blast
  then show ?thesis
    using assms by (simp add: MaternGeometricKernel_def noncompact_not_discrete)
qed

lemma factory_noncompact_key:
  assumes "isinstance_NoncompactSymmetricSpace space" and "kwargs ''key'' = Some key"
    and "num_or_default num space = Inr n" and "default_feature_map space n None = Inr fmap"
  shows "MaternGeometricKernel space num normalise return_feature_map kwargs =
    ([BuiltFeatureMap fmap, BuiltKernel (MaternFeatureMapKernel space fmap key normalise)],
     Inr (finish return_feature_map (MaternFeatureMapKernel space fmap key normalise) fmap))"
  using assms by (simp add: MaternGeometricKernel_def noncompact_not_discrete Let_def)

text \<open>
  C1. On a noncompact symmetric space, a call without \<^verbatim>\<open>key\<close> among the extra keyword
  arguments raises \<open>ValueError\<close> with nothing built: no feature map and no kernel.
  With \<^verbatim>\<open>key\<close> present the factory resolves the order, builds the default feature map
  and then the feature-map kernel on it with that key, and returns them.
\<close>

theorem C1_noncompact_requires_key:
  assumes "isinstance_NoncompactSymmetricSpace space"
  shows "(kwargs ''key'' = None \<longrightarrow>
            MaternGeometricKernel space num normalise return_feature_map kwargs
              = ([], Inl ValueError))
       \<and> (\<forall>key. kwargs ''key'' = Some key \<longrightarrow>
            (\<exists>n fmap. num_or_default num space = Inr n
               \<and> default_feature_map space n None = Inr fmap
               \<and> MaternGeometricKernel space num normalise return_feature_map kwargs
                  = ([BuiltFeatureMap fmap,
                      BuiltKernel (MaternFeatureMapKernel space fmap key normalise)],
                     Inr (finish return_feature_map
                            (MaternFeatureMapKernel space fmap key normalise) fmap))))"
proof (intro conjI allI impI)
  assume "kwargs ''key'' = None"
  with assms show "MaternGeometricKernel space num normalise return_feature_map kwargs
      = ([], Inl ValueError)"
    by (rule factory_noncompact_no_key)
next
  fix key assume k: "kwargs ''key'' = Some key"
  obtain n where n: "num_or_default num space = Inr n"
    using num_or_default_noncompact [OF assms] by blast
  obtain fmap :: "'a feature_map" where f: "default_feature_map space n None = Inr fmap"
    using default_feature_map_noncompact [OF assms] by blast
  have "MaternGeometricKernel space num normalise return_feature_map kwargs
         = ([BuiltFeatureMap fmap,
             BuiltKernel (MaternFeatureMapKernel space fmap key normalise)],
            Inr (finish return_feature_map
                   (MaternFeatureMapKernel space fmap key normalise) fmap))"
    using assms k n f by (rule factory_noncompact_key)
  with n f
  show "\<exists>n fmap. num_or_default num space = Inr n
      \<and> default_feature_map space n None = Inr fmap
      \<and> MaternGeometricKernel space num normalise return_feature_map kwargs
         = ([BuiltFeatureMap fmap,
             BuiltKernel (MaternFeatureMapKernel space fmap key normalise)],
            Inr (finish return_feature_map
                   (MaternFeatureMapKernel space fmap key normalise) fmap))"
    by blast
qed

theorem C1_noncompact_requires_key_witness:
  "isinstance_NoncompactSymmetricSpace NoncompactSymmetricSpace
   \<and> MaternGeometricKernel NoncompactSymmetricSpace (Some 10) True False
         (Map.empty :: string \<rightharpoonup> nat)
       = ([], Inl ValueError)
   \<and> MaternGeometricKernel NoncompactSymmetricSpace (Some 10) True False [''key'' \<mapsto> (7::nat)]
       = ([BuiltFeatureMap (random_phase_feature_map_noncompact NoncompactSymmetricSpace 10),
           BuiltKernel (MaternFeatureMapKernel NoncompactSymmetricSpace
              (random_phase_feature_map_noncompact NoncompactSymmetricSpace 10) 7 True)],
          Inr (KernelOnly (MaternFeatureMapKernel NoncompactSymmetricSpace
              (random_phase_feature_map_noncompact NoncompactSymmetricSpace 10) 7 True)))"
proof -
  have h: "isinstance_NoncompactSymmetricSpace NoncompactSymmetricSpace" by simp
  show ?thesis
    using C1_noncompact_requires_key [OF h, of "Map.empty :: string \<rightharpoonup> nat" "Some 10" True False]
      C1_noncompact_requires_key [OF h, of "[''key'' \<mapsto> (7::nat)]" "Some 10" True False]
    by (simp add: num_or_default_def finish_def)
qed

text \<open>
  C3. With no order given (\<^verbatim>\<open>num=None\<close>) the factory resolves the order to
  \<^verbatim>\<open>default_num(space)\<close>: the minimum of 1000 and the number of vertices for a graph
  or a mesh, 35 for any other discrete-spectrum space, 3000 for a noncompact symmetric
  space. For a discrete-spectrum space that order is the one the truncated-series
  kernel is built with.
\<close>

theorem C3_default_order:
  fixes kwargs :: "string \<rightharpoonup> 'k"
  shows
  "(isinstance_Graph_or_Mesh space \<longrightarrow>
      default_num space = Inr (min 1000 (num_vertices space))
    \<and> num_or_default None space = Inr (min 1000 (num_vertices space))
    \<and> hd (fst (MaternGeometricKernel space None normalise return_feature_map kwargs))
        = BuiltKernel (MaternKarhunenLoeveKernel space (min 1000 (num_vertices space)) normalise))
 \<and> (isinstance_DiscreteSpectrumSpace space \<and> \<not> isinstance_Graph_or_Mesh space \<longrightarrow>
      default_num space = Inr 35
    \<and> num_or_default None space = Inr 35
    \<and> hd (fst (MaternGeometricKernel space None normalise return_feature_map kwargs))
        = BuiltKernel (MaternKarhunenLoeveKernel space 35 normalise))
 \<and> (isinstance_NoncompactSymmetricSpace space \<longrightarrow>
      default_num space = Inr 3000
    \<and> num_or_default None space = Inr 3000
    \<and> (\<forall>key. kwargs ''key'' = Some key \<longrightarrow>
         (\<exists>fmap. default_feature_map space 3000 None = Inr fmap
            \<and> fst (MaternGeometricKernel space None normalise return_feature_map kwargs)
              = [BuiltFeatureMap fmap,
                 BuiltKernel (MaternFeatureMapKernel space fmap key normalise)])))"
proof (intro conjI impI allI)
  assume gm: "isinstance_Graph_or_Mesh space"
  then have d: "isinstance_DiscreteSpectrumSpace space" by (cases space) simp_all
  from gm show 1: "default_num space = Inr (min 1000 (num_vertices space))"
    by (simp add: default_num_graph_mesh DEFAULT_NUM_EIGENFUNCTIONS_def)
  then show 2: "num_or_default None space = Inr (min 1000 (num_vertices space))"
    by (simp add: num_or_default_None)
  show "hd (fst (MaternGeometricKernel space None normalise return_feature_map kwargs))
        = BuiltKernel (MaternKarhunenLoeveKernel space (min 1000 (num_vertices space)) normalise)"
    by (simp add: factory_discrete [OF d 2])
next
  assume a: "isinstance_DiscreteSpectrumSpace space \<and> \<not> isinstance_Graph_or_Mesh space"
  then have d: "isinstance_DiscreteSpectrumSpace space" by simp
  from a show 1: "default_num space = Inr 35"
    by (simp add: default_num_discrete_other DEFAULT_NUM_LEVELS_def)
  then show 2: "num_or_default None space = Inr 35"
    by (simp add: num_or_default_None)
  show "hd (fst (MaternGeometricKernel space None normalise return_feature_map kwargs))
        = BuiltKernel (MaternKarhunenLoeveKernel space 35 normalise)"
    by (simp add: factory_discrete [OF d 2])
next
  assume nc: "isinstance_NoncompactSymmetricSpace space"
  then show 1: "default_num space = Inr 3000"
    by (simp add: default_num_noncompact DEFAULT_NUM_RANDOM_PHASES_def)
  then show 2: "num_or_default None space = Inr 3000"
    by (simp add: num_or_default_None)
  fix key assume k: "kwargs ''key'' = Some key"
  obtain fmap :: "'k feature_map" where f: "default_feature_map space 3000 None = Inr fmap"
    using default_feature_map_noncompact [OF nc] by blast
  have "fst (MaternGeometricKernel space None normalise return_feature_map kwargs)
              = [BuiltFeatureMap fmap,
                 BuiltKernel (MaternFeatureMapKernel space fmap key normalise)]"
    by (simp add: factory_noncompact_key [where kwargs = kwargs, OF nc k 2 f])
  with f show "\<exists>fmap. default_feature_map space 3000 None = Inr fmap
            \<and> fst (MaternGeometricKernel space None normalise return_feature_map kwargs)
              = [BuiltFeatureMap fmap,
                 BuiltKernel (MaternFeatureMapKernel space fmap key normalise)]"
    by blast
qed

theorem C3_default_order_witness:
  "isinstance_Graph_or_Mesh (Graph 7) \<and> default_num (Graph 7) = Inr 7
   \<and> isinstance_Graph_or_Mesh (Mesh 2500) \<and> default_num (Mesh 2500) = Inr 1000
   \<and> hd (fst (MaternGeometricKernel (Mesh 2500) None True False (Map.empty :: string \<rightharpoonup> nat)))
       = BuiltKernel (MaternKarhunenLoeveKernel (Mesh 2500) 1000 True)
   \<and> isinstance_DiscreteSpectrumSpace DiscreteSpectrumSpace
   \<and> \<not> isinstance_Graph_or_Mesh DiscreteSpectrumSpace
   \<and> default_num DiscreteSpectrumSpace = Inr 35
   \<and> isinstance_NoncompactSymmetricSpace SymmetricPositiveDefiniteMatrices
   \<and> default_num SymmetricPositiveDefiniteMatrices = Inr 3000
   \<and> fst (MaternGeometricKernel SymmetricPositiveDefiniteMatrices None True False
            [''key'' \<mapsto> (7::nat)])
       = [BuiltFeatureMap
            (rejection_sampling_feature_map_spd SymmetricPositiveDefiniteMatrices 3000),
          BuiltKernel (MaternFeatureMapKernel SymmetricPositiveDefiniteMatrices
            (rejection_sampling_feature_map_spd SymmetricPositiveDefiniteMatrices 3000) 7 True)]"
  using C3_default_order [of "Graph 7" True False "Map.empty :: string \<rightharpoonup> nat"]
    C3_default_order [of "Mesh 2500" True False "Map.empty :: string \<rightharpoonup> nat"]
    C3_default_order [of DiscreteSpectrumSpace True False "Map.empty :: string \<rightharpoonup> nat"]
    C3_default_order [of SymmetricPositiveDefiniteMatrices True False "[''key'' \<mapsto> (7::nat)]"]
  by simp

text \<open>
  C10. An order of \<open>0\<close> is falsy, so \<^verbatim>\<open>num or default_num(space)\<close> replaces it by the
  default: the factory called with \<^verbatim>\<open>num=0\<close> does exactly what it does with \<^verbatim>\<open>num\<close>
  omitted, on every space and with every other argument. Any other integer is the
  order used: the truncated-series kernel or the feature map is built with it.
\<close>

theorem C10_zero_order_is_default:
  fixes kwargs :: "string \<rightharpoonup> 'k"
  shows
  "MaternGeometricKernel space (Some 0) normalise return_feature_map kwargs
     = MaternGeometricKernel space None normalise return_feature_map kwargs
   \<and> num_or_default (Some 0) space = default_num space
   \<and> (n \<noteq> 0 \<longrightarrow>
        num_or_default (Some n) space = Inr n
      \<and> (isinstance_DiscreteSpectrumSpace space \<longrightarrow>
           hd (fst (MaternGeometricKernel space (Some n) normalise return_feature_map kwargs))
             = BuiltKernel (MaternKarhunenLoeveKernel space n normalise))
      \<and> (isinstance_NoncompactSymmetricSpace space \<longrightarrow>
           (\<forall>key. kwargs ''key'' = Some key \<longrightarrow>
             (\<exists>fmap. default_feature_map space n None = Inr fmap
               \<and> fst (MaternGeometricKernel space (Some n) normalise return_feature_map kwargs)
                 = [BuiltFeatureMap fmap,
                    BuiltKernel (MaternFeatureMapKernel space fmap key normalise)]))))"
proof (intro conjI impI allI)
  show "MaternGeometricKernel space (Some 0) normalise return_feature_map kwargs
     = MaternGeometricKernel space None normalise return_feature_map kwargs"
    by (simp add: MaternGeometricKernel_def num_or_default_zero num_or_default_None)
  show "num_or_default (Some 0) space = default_num space"
    by (rule num_or_default_zero)
next
  assume "n \<noteq> 0"
  then show "num_or_default (Some n) space = Inr n"
    by (rule num_or_default_nonzero)
next
  assume "n \<noteq> 0"
  then have 2: "num_or_default (Some n) space = Inr n"
    by (rule num_or_default_nonzero)
  assume d: "isinstance_DiscreteSpectrumSpace space"
  show "hd (fst (MaternGeometricKernel space (Some n) normalise return_feature_map kwargs))
             = BuiltKernel (MaternKarhunenLoeveKernel space n normalise)"
    by (simp add: factory_discrete [OF d 2])
next
  fix key
  assume "n \<noteq> 0"
  then have 2: "num_or_default (Some n) space = Inr n"
    by (rule num_or_default_nonzero)
  assume nc: "isinstance_NoncompactSymmetricSpace space" and k: "kwargs ''key'' = Some key"
  obtain fmap :: "'k feature_map" where f: "default_feature_map space n None = Inr fmap"
    using default_feature_map_noncompact [OF nc] by blast
  have "fst (MaternGeometricKernel space (Some n) normalise return_feature_map kwargs)
              = [BuiltFeatureMap fmap,
                 BuiltKernel (MaternFeatureMapKernel space fmap key normalise)]"
    by (simp add: factory_noncompact_key [where kwargs = kwargs, OF nc k 2 f])
  with f show "\<exists>fmap. default_feature_map space n None = Inr fmap
            \<and> fst (MaternGeometricKernel space (Some n) normalise return_feature_map kwargs)
              = [BuiltFeatureMap fmap,
                 BuiltKernel (MaternFeatureMapKernel space fmap key normalise)]"
    by blast
qed

theorem C10_zero_order_is_default_witness:
  "MaternGeometricKernel DiscreteSpectrumSpace (Some 0) True True (Map.empty :: string \<rightharpoonup> nat)
     = MaternGeometricKernel DiscreteSpectrumSpace None True True Map.empty
   \<and> fst (MaternGeometricKernel DiscreteSpectrumSpace (Some 0) True True
         (Map.empty :: string \<rightharpoonup> nat))
     = [BuiltKernel (MaternKarhunenLoeveKernel DiscreteSpectrumSpace 35 True),
        BuiltFeatureMap (deterministic_feature_map_compact DiscreteSpectrumSpace
          (Some (MaternKarhunenLoeveKernel DiscreteSpectrumSpace 35 True)))]
   \<and> (-3::int) \<noteq> 0
   \<and> isinstance_DiscreteSpectrumSpace DiscreteSpectrumSpace
   \<and> hd (fst (MaternGeometricKernel DiscreteSpectrumSpace (Some (-3)) True True
         (Map.empty :: string \<rightharpoonup> nat)))
     = BuiltKernel (MaternKarhunenLoeveKernel DiscreteSpectrumSpace (-3) True)
   \<and> isinstance_NoncompactSymmetricSpace NoncompactSymmetricSpace
   \<and> fst (MaternGeometricKernel NoncompactSymmetricSpace (Some 12) True True
         [''key'' \<mapsto> (7::nat)])
     = [BuiltFeatureMap (random_phase_feature_map_noncompact NoncompactSymmetricSpace 12),
        BuiltKernel (MaternFeatureMapKernel NoncompactSymmetricSpace
          (random_phase_feature_map_noncompact NoncompactSymmetricSpace 12) 7 True)]"
  using C10_zero_order_is_default
      [of DiscreteSpectrumSpace True True "Map.empty :: string \<rightharpoonup> nat" "-3"]
    C10_zero_order_is_default
      [of NoncompactSymmetricSpace True True "[''key'' \<mapsto> (7::nat)]" 12]
  by (simp add: MaternGeometricKernel_def num_or_default_def DEFAULT_NUM_LEVELS_def Let_def)

section \<open>Properties of the circle's eigenfunctions\<close>

lemma py_range_length: "length (py_range n) = nat n"
  by (simp add: py_range_def)

lemma py_range_nth: "l < nat n \<Longrightarrow> py_range n ! l = int l"
  by (simp add: py_range_def)

lemma per_level_length: "length (num_eigenfunctions_per_level ef) = nat (num_levels ef)"
  by (simp add: num_eigenfunctions_per_level_def py_range_length)

lemma per_level_nth:
  "l < nat (num_levels ef) \<Longrightarrow> num_eigenfunctions_per_level ef ! l = (if l = 0 then 1 else 2)"
  by (simp add: num_eigenfunctions_per_level_def py_range_length py_range_nth)

lemma sum_per_level_upt:
  "sum_list (map (\<lambda>level. if level = 0 then 1 else (2::int)) (map int [0..<Suc k])) = 2 * int k + 1"
  by (induction k) simp_all

lemma init_even:
  "n mod 2 = 0 \<Longrightarrow> SinCosEigenfunctions_init n = Inl (AssertionError (Some parity_message))"
  by (simp add: SinCosEigenfunctions_init_def)

lemma init_odd:
  "n mod 2 = 1 \<Longrightarrow> 1 \<le> n \<Longrightarrow>
     SinCosEigenfunctions_init n = Inr \<lparr>num_eigenfunctions = n, num_levels = n div 2 + 1\<rparr>"
  by (simp add: SinCosEigenfunctions_init_def)

lemma per_level_sum:
  assumes "n mod 2 = 1" "1 \<le> n"
  shows "sum_list (num_eigenfunctions_per_level \<lparr>num_eigenfunctions = n, num_levels = n div 2 + 1\<rparr>) = n"
proof -
  have "nat (n div 2 + 1) = Suc (nat (n div 2))" using assms by simp
  then have "sum_list (num_eigenfunctions_per_level \<lparr>num_eigenfunctions = n, num_levels = n div 2 + 1\<rparr>)
      = 2 * int (nat (n div 2)) + 1"
    by (simp only: num_eigenfunctions_per_level_def py_range_def sum_per_level_upt
          SinCosEigenfunctions.simps)
  also have "\<dots> = 2 * (n div 2) + 1" using assms by simp
  also have "\<dots> = n" using assms by presburger
  finally show ?thesis .
qed

text \<open>
  C7. Constructing the circle's eigenfunctions with an even count (zero included) fails
  in the constructor with the parity assertion. For every odd count \<open>n \<ge> 1\<close> the
  constructor succeeds, the object has \<open>n div 2 + 1\<close> levels, the per-level counts are
  1 for level 0 and 2 for every other level, and they sum to \<open>n\<close>.
\<close>

theorem C7_circle_parity_and_levels:
  "(n mod 2 = 0 \<longrightarrow> SinCosEigenfunctions_init n = Inl (AssertionError (Some parity_message)))
 \<and> (n mod 2 = 1 \<and> 1 \<le> n \<longrightarrow>
      (\<exists>ef. SinCosEigenfunctions_init n = Inr ef
         \<and> num_eigenfunctions ef = n
         \<and> num_levels ef = n div 2 + 1
         \<and> length (num_eigenfunctions_per_level ef) = nat (n div 2 + 1)
         \<and> (\<forall>l < nat (n div 2 + 1).
               num_eigenfunctions_per_level ef ! l = (if l = 0 then 1 else 2))
         \<and> sum_list (num_eigenfunctions_per_level ef) = n))"
proof (intro conjI impI)
  assume "n mod 2 = 0"
  then show "SinCosEigenfunctions_init n = Inl (AssertionError (Some parity_message))"
    by (rule init_even)
next
  assume a: "n mod 2 = 1 \<and> 1 \<le> n"
  let ?ef = "\<lparr>num_eigenfunctions = n, num_levels = n div 2 + 1\<rparr>"
  have 1: "SinCosEigenfunctions_init n = Inr ?ef" using a by (simp add: init_odd)
  have 2: "length (num_eigenfunctions_per_level ?ef) = nat (n div 2 + 1)"
    by (simp add: per_level_length)
  have 3: "\<forall>l < nat (n div 2 + 1).
               num_eigenfunctions_per_level ?ef ! l = (if l = 0 then 1 else 2)"
    by (simp add: per_level_nth)
  have 4: "sum_list (num_eigenfunctions_per_level ?ef) = n"
    using a by (simp add: per_level_sum)
  from 1 2 3 4 show "\<exists>ef. SinCosEigenfunctions_init n = Inr ef
         \<and> num_eigenfunctions ef = n
         \<and> num_levels ef = n div 2 + 1
         \<and> length (num_eigenfunctions_per_level ef) = nat (n div 2 + 1)
         \<and> (\<forall>l < nat (n div 2 + 1).
               num_eigenfunctions_per_level ef ! l = (if l = 0 then 1 else 2))
         \<and> sum_list (num_eigenfunctions_per_level ef) = n"
    by (intro exI [of _ ?ef]) simp
qed

theorem C7_circle_parity_and_levels_witness:
  "(4::int) mod 2 = 0
   \<and> SinCosEigenfunctions_init 4 = Inl (AssertionError (Some parity_message))
   \<and> SinCosEigenfunctions_init 0 = Inl (AssertionError (Some parity_message))
   \<and> (5::int) mod 2 = 1 \<and> (1::int) \<le> 5
   \<and> SinCosEigenfunctions_init 5 = Inr \<lparr>num_eigenfunctions = 5, num_levels = 3\<rparr>
   \<and> num_eigenfunctions_per_level \<lparr>num_eigenfunctions = 5, num_levels = 3\<rparr> = [1, 2, 2]
   \<and> sum_list (num_eigenfunctions_per_level \<lparr>num_eigenfunctions = 5, num_levels = 3\<rparr>) = 5"
  using C7_circle_parity_and_levels [of 4] C7_circle_parity_and_levels [of 0] C7_circle_parity_and_levels [of 5]
  by (simp add: SinCosEigenfunctions_init_def num_eigenfunctions_per_level_def py_range_def
        eval_nat_numeral upt_conv_Cons less_Suc_eq)

lemma cartesian_to_polar_length: "length (cartesian_to_polar X) = length X"
  by (simp add: cartesian_to_polar_def)

lemma addition_theorem_diag_entry:
  assumes "n < length X" and "l < nat (num_levels ef)"
  shows "addition_theorem_diag ef X ! n ! l = real_of_int (num_eigenfunctions_per_level ef ! l)"
  using assms by (simp add: addition_theorem_diag_def Let_def per_level_length)

lemma addition_theorem_entry:
  assumes "n < length X" and "n2 < length X2" and "l < nat (num_levels ef)"
  shows "addition_theorem ef X X2 ! n ! n2 ! l
     = real_of_int (num_eigenfunctions_per_level ef ! l)
         * cos (real l * (cartesian_to_polar X ! n - cartesian_to_polar X2 ! n2))"
  using assms
  by (simp add: addition_theorem_def Let_def per_level_length py_range_length py_range_nth
        cartesian_to_polar_length)

text \<open>
  C6. For the circle, for every point set \<open>X\<close>, every point index \<open>n\<close> and every level
  \<open>l\<close>, the entry \<open>[n, l]\<close> of \<^verbatim>\<open>_addition_theorem_diag(X)\<close> equals the entry \<open>[n, n, l]\<close>
  of \<^verbatim>\<open>_addition_theorem(X, X)\<close>, and both are the number of eigenfunctions of level
  \<open>l\<close>: 1 for level 0 and 2 otherwise.
\<close>

theorem C6_addition_theorem_diag_consistent:
  assumes "n < length X" and "l < nat (num_levels ef)"
  shows "addition_theorem_diag ef X ! n ! l = addition_theorem ef X X ! n ! n ! l
       \<and> addition_theorem_diag ef X ! n ! l = real_of_int (num_eigenfunctions_per_level ef ! l)
       \<and> num_eigenfunctions_per_level ef ! l = (if l = 0 then 1 else 2)"
proof -
  have "addition_theorem ef X X ! n ! n ! l = real_of_int (num_eigenfunctions_per_level ef ! l)"
    using addition_theorem_entry [OF assms(1) assms(1) assms(2)] by simp
  then show ?thesis
    using assms by (simp add: addition_theorem_diag_entry per_level_nth)
qed

theorem C6_addition_theorem_diag_consistent_witness:
  "(1::nat) < length [(1, 0), (0, 1 :: real)]
   \<and> (2::nat) < nat (num_levels \<lparr>num_eigenfunctions = 5, num_levels = 3\<rparr>)
   \<and> addition_theorem_diag \<lparr>num_eigenfunctions = 5, num_levels = 3\<rparr> [(1, 0), (0, 1)] ! 1 ! 2
      = addition_theorem \<lparr>num_eigenfunctions = 5, num_levels = 3\<rparr>
          [(1, 0), (0, 1)] [(1, 0), (0, 1)] ! 1 ! 1 ! 2
   \<and> addition_theorem_diag \<lparr>num_eigenfunctions = 5, num_levels = 3\<rparr> [(1, 0), (0, 1)] ! 1 ! 2 = 2"
  using C6_addition_theorem_diag_consistent [of 1 "[(1, 0), (0, 1)]" 2 "\<lparr>num_eigenfunctions = 5, num_levels = 3\<rparr>"]
  by simp


lemma call_5:
  "call \<lparr>num_eigenfunctions = 5, num_levels = 3\<rparr> [(1, 0), (0, 1)]
     = [[1, sqrt 2 * cos (atan2 0 1), sqrt 2 * sin (atan2 0 1),
            sqrt 2 * cos (2 * atan2 0 1), sqrt 2 * sin (2 * atan2 0 1)],
        [1, sqrt 2 * cos (atan2 1 0), sqrt 2 * sin (atan2 1 0),
            sqrt 2 * cos (2 * atan2 1 0), sqrt 2 * sin (2 * atan2 1 0)]]"
  by (simp add: call_def call_step_def concat_axis1_def cartesian_to_polar_def py_range_def
        Let_def eval_nat_numeral upt_conv_Cons)

text \<open>
  C8. With \<^verbatim>\<open>num_eigenfunctions=5\<close> the constructor succeeds, and evaluating the basis
  at the two points \<open>(1, 0)\<close> and \<open>(0, 1)\<close> gives a matrix of two rows of five entries
  whose first column is 1 for both points.
\<close>

theorem C8_first_column_is_one:
  "\<exists>ef. SinCosEigenfunctions_init 5 = Inr ef
      \<and> length (call ef [(1, 0), (0, 1)]) = 2
      \<and> map length (call ef [(1, 0), (0, 1)]) = [5, 5]
      \<and> map (\<lambda>row. row ! 0) (call ef [(1, 0), (0, 1)]) = [1, 1]"
proof -
  have "SinCosEigenfunctions_init 5 = Inr \<lparr>num_eigenfunctions = 5, num_levels = 3\<rparr>"
    by (simp add: SinCosEigenfunctions_init_def)
  then show ?thesis by (simp add: call_5)
qed

section \<open>Properties of the array primitives\<close>

text \<open>
  C4. For a sparse \<open>L\<close>, \<^verbatim>\<open>eigenpairs(L, k)\<close> hands the solver the dense copy
  \<^verbatim>\<open>L.toarray()\<close> if \<open>k\<close> equals the number of rows \<^verbatim>\<open>L.shape[0]\<close> and \<open>L\<close> itself,
  still sparse, otherwise; so the solver's operand is dense exactly when \<open>k\<close> equals
  the dimension, and for \<open>k\<close> below the dimension the sparse input is passed as it
  is. A dense input is passed unchanged.
\<close>

theorem C4_densify_iff_full_spectrum:
  "eigenpairs eigsh (Sparse s) k
      = eigsh (if k = int (nrows s) then Dense (toarray s) else Sparse s) k (1 / 10 ^ 8)
   \<and> (issparse (eigenpairs (\<lambda>L k sigma. L) (Sparse s) k) = (k \<noteq> int (nrows s)))
   \<and> (k < int (nrows s) \<longrightarrow> eigenpairs eigsh (Sparse s) k = eigsh (Sparse s) k (1 / 10 ^ 8))
   \<and> eigenpairs eigsh (Dense a) k = eigsh (Dense a) k (1 / 10 ^ 8)"
  by (simp add: eigenpairs_def)

theorem C4_densify_iff_full_spectrum_witness:
  "(2::int) < int (nrows \<lparr>nrows = 3, ncols = 3, entries = [((0, 0), 2)]\<rparr>)
   \<and> eigenpairs (\<lambda>L k sigma. (L, k)) (Sparse \<lparr>nrows = 3, ncols = 3, entries = [((0, 0), 2)]\<rparr>) 2
       = (Sparse \<lparr>nrows = 3, ncols = 3, entries = [((0, 0), 2)]\<rparr>, 2)
   \<and> eigenpairs (\<lambda>L k sigma. (L, k)) (Sparse \<lparr>nrows = 2, ncols = 2, entries = [((0, 0), 2)]\<rparr>) 2
       = (Dense (Arr [Arr [Num 2, Num 0], Arr [Num 0, Num 0]]), 2)"
  using C4_densify_iff_full_spectrum [of "\<lambda>L k sigma. (L, k)" "\<lparr>nrows = 3, ncols = 3, entries = [((0, 0), 2)]\<rparr>" 2]
    C4_densify_iff_full_spectrum [of "\<lambda>L k sigma. (L, k)" "\<lparr>nrows = 2, ncols = 2, entries = [((0, 0), 2)]\<rparr>" 2]
  by (simp add: toarray_def sp_get_def eval_nat_numeral upt_conv_Cons)

lemma norm_index_bound: "norm_index n i = Inr p \<Longrightarrow> p < n"
  by (auto simp: norm_index_def split: if_splits)

lemma norm_index_error: "norm_index n i = Inl e \<Longrightarrow> e = IndexError"
  by (auto simp: norm_index_def split: if_splits)

lemma map_of_row:
  "map_of (map (\<lambda>j. ((p, j), v)) [0..<n]) (i, j) = (if i = p \<and> j < n then Some v else None)"
  by (induction n) (auto simp: map_add_def split: option.splits)

lemma sp_get_assigned:
  "sp_get (s\<lparr>entries := map (\<lambda>j. ((p, j), v)) [0..<ncols s] @ entries s\<rparr>) i j
     = (if i = p \<and> j < ncols s then v else sp_get s i j)"
  by (simp add: sp_get_def map_of_append map_add_def map_of_row)

lemma setitem_len0: "setitem obj i v = Inr obj' \<Longrightarrow> len0 (contents obj') = len0 (contents obj)"
  by (induction obj i v rule: setitem.induct) (auto split: sum.splits option.splits)

lemma setitem_issparse:
  "setitem obj i v = Inr obj' \<Longrightarrow> issparse (contents obj') = issparse (contents obj)"
  by (induction obj i v rule: setitem.induct) (auto split: sum.splits option.splits)

lemma setitem_dtype: "setitem obj i v = Inr obj' \<Longrightarrow> dtype_of obj' = dtype_of obj"
  by (induction obj i v rule: setitem.induct) (auto split: sum.splits option.splits)

lemma setitem_succeeds:
  "assignable obj \<Longrightarrow> norm_index (len0 (contents obj)) i = Inr p \<Longrightarrow>
     cast (dtype_of obj) v = Inr w \<Longrightarrow> \<exists>obj'. setitem obj i v = Inr obj'"
  by (induction obj i v rule: setitem.induct) (auto simp: norm_index_def split: if_splits)

lemma setitem_out_of_range:
  "assignable obj \<Longrightarrow> norm_index (len0 (contents obj)) i = Inl e \<Longrightarrow>
     setitem obj i v = Inl IndexError"
  by (induction obj i v rule: setitem.induct) (auto simp: norm_index_def split: if_splits)

lemma setitem_not_assignable:
  "item_assignment_error fmt = Some e \<Longrightarrow> setitem (SparseMatrix fmt dt s) i v = Inl e"
  by simp

lemma setitem_item:
  assumes "setitem obj i v = Inr obj'" and "norm_index (len0 (contents obj)) i = Inr p"
    and "cast (dtype_of obj) v = Inr w" and "q < len0 (contents obj)"
  shows "item (contents obj') q
     = (if q = p then fill w (item (contents obj) p) else item (contents obj) q)"
  using assms
proof (induction obj i v rule: setitem.induct)
  case (1 dt x i v)
  then show ?case by simp
next
  case (2 dt xs i v)
  then show ?case by (auto split: sum.splits)
next
  case (3 fmt dt s i v)
  then show ?case by (auto simp: sp_get_assigned split: sum.splits option.splits)
qed

lemma set_value_ok:
  assumes "setitem (h ! a) index v = Inr obj"
  shows "set_value h a index v = (h @ [obj], Inr (length h))"
  using assms by (simp add: set_value_def copy_def)

lemma set_value_error:
  assumes "setitem (h ! a) index v = Inl e"
  shows "set_value h a index v = (h @ [h ! a], Inl e)"
  using assms by (simp add: set_value_def copy_def)

lemma set_value_frame:
  assumes "a < length h"
  shows "length (fst (set_value h a index v)) = Suc (length h)
       \<and> fst (set_value h a index v) ! a = h ! a
       \<and> (\<forall>c < length h. fst (set_value h a index v) ! c = h ! c)"
proof (cases "setitem (h ! a) index v")
  case (Inl e)
  then show ?thesis using assms by (simp add: set_value_error nth_append)
next
  case (Inr obj)
  then show ?thesis using assms by (simp add: set_value_ok nth_append)
qed

text \<open>
  C5, as the code has it. Let \<open>a\<close> be an array object that is a numpy array or a sparse
  matrix of a class with item assignment, \<open>index\<close> an index within the first axis of
  \<open>a\<close> (\<open>-len \<le> index < len\<close>, a negative index counting from the end), and \<open>value\<close> a
  value that the dtype of \<open>a\<close> converts to \<open>w\<close> (\<open>w\<close> is \<open>value\<close> itself for a \<open>float64\<close>
  array). Then \<^verbatim>\<open>set_value(a, index, value)\<close> returns a newly allocated array, distinct
  from \<open>a\<close>, of the same kind, dtype and length, whose item at the position of
  \<open>index\<close> has every element equal to \<open>w\<close> and whose other items are those of \<open>a\<close>. For
  an index outside the axis the call raises \<open>IndexError\<close>; for a sparse matrix of a
  class without item assignment it raises the error of that class. In every case,
  whatever the index and the value, \<open>a\<close> and every other object on the heap are
  unchanged.
\<close>

theorem C5_set_value_functional:
  assumes "a < length h"
  shows "(length (fst (set_value h a index v)) = Suc (length h)
          \<and> fst (set_value h a index v) ! a = h ! a
          \<and> (\<forall>c < length h. fst (set_value h a index v) ! c = h ! c))
       \<and> (\<forall>p w. assignable (h ! a)
               \<and> norm_index (len0 (contents (h ! a))) index = Inr p
               \<and> cast (dtype_of (h ! a)) v = Inr w \<longrightarrow>
           (\<exists>h' b. set_value h a index v = (h', Inr b)
              \<and> b = length h \<and> b \<noteq> a
              \<and> len0 (contents (h' ! b)) = len0 (contents (h ! a))
              \<and> issparse (contents (h' ! b)) = issparse (contents (h ! a))
              \<and> dtype_of (h' ! b) = dtype_of (h ! a)
              \<and> (\<forall>q < len0 (contents (h ! a)).
                    item (contents (h' ! b)) q
                      = (if q = p then fill w (item (contents (h ! a)) p)
                         else item (contents (h ! a)) q))))
       \<and> (assignable (h ! a) \<and> norm_index (len0 (contents (h ! a))) index = Inl IndexError \<longrightarrow>
            snd (set_value h a index v) = Inl IndexError)
       \<and> (\<forall>fmt dt s e. h ! a = SparseMatrix fmt dt s \<and> item_assignment_error fmt = Some e \<longrightarrow>
            snd (set_value h a index v) = Inl e)"
proof (intro conjI allI impI)
  show "length (fst (set_value h a index v)) = Suc (length h)"
    and "fst (set_value h a index v) ! a = h ! a"
    using set_value_frame [OF assms] by blast+
next
  fix c assume "c < length h"
  then show "fst (set_value h a index v) ! c = h ! c"
    using set_value_frame [OF assms] by blast
next
  fix p w
  assume pre: "assignable (h ! a)
               \<and> norm_index (len0 (contents (h ! a))) index = Inr p
               \<and> cast (dtype_of (h ! a)) v = Inr w"
  then have asg: "assignable (h ! a)"
    and p: "norm_index (len0 (contents (h ! a))) index = Inr p"
    and w: "cast (dtype_of (h ! a)) v = Inr w"
    by simp_all
  obtain obj where obj: "setitem (h ! a) index v = Inr obj"
    using setitem_succeeds [OF asg p w] by blast
  have 1: "set_value h a index v = (h @ [obj], Inr (length h))"
    using obj by (rule set_value_ok)
  have 3: "len0 (contents ((h @ [obj]) ! length h)) = len0 (contents (h ! a))"
    using setitem_len0 [OF obj] by simp
  have 4: "issparse (contents ((h @ [obj]) ! length h)) = issparse (contents (h ! a))"
    using setitem_issparse [OF obj] by simp
  have 5: "dtype_of ((h @ [obj]) ! length h) = dtype_of (h ! a)"
    using setitem_dtype [OF obj] by simp
  have 6: "\<forall>q < len0 (contents (h ! a)). item (contents ((h @ [obj]) ! length h)) q
             = (if q = p then fill w (item (contents (h ! a)) p) else item (contents (h ! a)) q)"
    using setitem_item [OF obj p w] by simp
  show "\<exists>h' b. set_value h a index v = (h', Inr b)
              \<and> b = length h \<and> b \<noteq> a
              \<and> len0 (contents (h' ! b)) = len0 (contents (h ! a))
              \<and> issparse (contents (h' ! b)) = issparse (contents (h ! a))
              \<and> dtype_of (h' ! b) = dtype_of (h ! a)
              \<and> (\<forall>q < len0 (contents (h ! a)).
                    item (contents (h' ! b)) q
                      = (if q = p then fill w (item (contents (h ! a)) p)
                         else item (contents (h ! a)) q))"
  proof (intro exI conjI)
    show "set_value h a index v = (h @ [obj], Inr (length h))" by (rule 1)
    show "length h = length h" by simp
    show "length h \<noteq> a" using assms by simp
    show "len0 (contents ((h @ [obj]) ! length h)) = len0 (contents (h ! a))" by (rule 3)
    show "issparse (contents ((h @ [obj]) ! length h)) = issparse (contents (h ! a))" by (rule 4)
    show "dtype_of ((h @ [obj]) ! length h) = dtype_of (h ! a)" by (rule 5)
    show "\<forall>q < len0 (contents (h ! a)). item (contents ((h @ [obj]) ! length h)) q
             = (if q = p then fill w (item (contents (h ! a)) p) else item (contents (h ! a)) q)"
      by (rule 6)
  qed
next
  assume "assignable (h ! a) \<and> norm_index (len0 (contents (h ! a))) index = Inl IndexError"
  then have "setitem (h ! a) index v = Inl IndexError"
    by (simp add: setitem_out_of_range)
  then show "snd (set_value h a index v) = Inl IndexError"
    by (simp add: set_value_error)
next
  fix fmt dt s e
  assume "h ! a = SparseMatrix fmt dt s \<and> item_assignment_error fmt = Some e"
  then have "setitem (h ! a) index v = Inl e"
    by (simp add: setitem_not_assignable)
  then show "snd (set_value h a index v) = Inl e"
    by (simp add: set_value_error)
qed

text \<open>
  C5, as stated, asks for a returned array that holds \<open>value\<close> at \<open>index\<close>, for every
  array, index and value. On the array \<open>[1, 2]\<close> and the index 5 the call raises
  \<open>IndexError\<close>; on a \<^verbatim>\<open>coo_matrix\<close> it raises \<open>TypeError\<close> at index 0; on the integer
  array \<open>[1, 2]\<close>, index 0 and value 9.5 the returned array is \<open>[9, 2]\<close>.
\<close>

theorem C5_set_value_out_of_range_counterexample:
  "set_value [NDArray float64 (Arr [Num 1, Num 2])] 0 5 9
     = ([NDArray float64 (Arr [Num 1, Num 2]), NDArray float64 (Arr [Num 1, Num 2])],
        Inl IndexError)
   \<and> snd (set_value [SparseMatrix coo_matrix float64
                      \<lparr>nrows = 2, ncols = 2, entries = [((0, 0), 5)]\<rparr>] 0 0 9)
     = Inl TypeError
   \<and> set_value [NDArray truncating (Arr [Num 1, Num 2])] 0 0 (19 / 2)
     = ([NDArray truncating (Arr [Num 1, Num 2]), NDArray truncating (Arr [Num 9, Num 2])],
        Inr 1)"
  by (simp add: set_value_def copy_def norm_index_def truncating_def)

theorem C5_set_value_functional_witness:
  "(0::nat) < length [NDArray float64 (Arr [Num 1, Num 2, Num 3])]
   \<and> assignable ([NDArray float64 (Arr [Num 1, Num 2, Num 3])] ! 0)
   \<and> norm_index (len0 (contents ([NDArray float64 (Arr [Num 1, Num 2, Num 3])] ! 0))) (- 1) = Inr 2
   \<and> cast (dtype_of ([NDArray float64 (Arr [Num 1, Num 2, Num 3])] ! 0)) 9 = Inr 9
   \<and> set_value [NDArray float64 (Arr [Num 1, Num 2, Num 3])] 0 (- 1) 9
       = ([NDArray float64 (Arr [Num 1, Num 2, Num 3]), NDArray float64 (Arr [Num 1, Num 2, Num 9])],
          Inr 1)
   \<and> norm_index (len0 (contents ([NDArray float64 (Arr [Num 1, Num 2, Num 3])] ! 0))) 3
       = Inl IndexError
   \<and> snd (set_value [NDArray float64 (Arr [Num 1, Num 2, Num 3])] 0 3 9) = Inl IndexError
   \<and> item_assignment_error bsr_matrix = Some NotImplementedError
   \<and> set_value [SparseMatrix bsr_matrix float64 \<lparr>nrows = 2, ncols = 2, entries = []\<rparr>] 0 0 9
       = ([SparseMatrix bsr_matrix float64 \<lparr>nrows = 2, ncols = 2, entries = []\<rparr>,
           SparseMatrix bsr_matrix float64 \<lparr>nrows = 2, ncols = 2, entries = []\<rparr>],
          Inl NotImplementedError)"
  using C5_set_value_functional [of 0 "[NDArray float64 (Arr [Num 1, Num 2, Num 3])]" "- 1" 9]
    C5_set_value_functional [of 0 "[NDArray float64 (Arr [Num 1, Num 2, Num 3])]" 3 9]
    C5_set_value_functional
      [of 0 "[SparseMatrix bsr_matrix float64 \<lparr>nrows = 2, ncols = 2, entries = []\<rparr>]" 0 9]
  by (simp add: set_value_def copy_def norm_index_def)

lemma set_value_sparse_example:
  "set_value [SparseMatrix csr_matrix float64 \<lparr>nrows = 2, ncols = 2, entries = [((0, 0), 5)]\<rparr>] 0 1 7
     = ([SparseMatrix csr_matrix float64 \<lparr>nrows = 2, ncols = 2, entries = [((0, 0), 5)]\<rparr>,
         SparseMatrix csr_matrix float64
           \<lparr>nrows = 2, ncols = 2, entries = [((1, 0), 7), ((1, 1), 7), ((0, 0), 5)]\<rparr>], Inr 1)"
  by (simp add: set_value_def copy_def norm_index_def eval_nat_numeral upt_conv_Cons)

section \<open>Properties of the row normalisation\<close>

lemma fl_sum_zeros:
  assumes "rnd 0 = Finite 0" and "\<forall>x \<in> set xs. x = Finite 0"
  shows "fl_sum rnd xs = Finite 0"
proof -
  have "foldl (fl_add rnd) (Finite 0) xs = Finite 0"
    using assms(2) by (induction xs) (simp_all add: assms(1))
  then show ?thesis by (simp add: fl_sum_def)
qed

lemma normalizer_zeros:
  assumes "rnd 0 = Finite 0"
    and "\<forall>xs. (\<forall>x \<in> set xs. x = Finite 0) \<longrightarrow> fsum xs = Finite 0"
    and "\<forall>x \<in> set out. x = Finite 0"
  shows "normalizer rnd fsum out = Finite 0"
proof -
  have "\<forall>y \<in> set (map (\<lambda>x. fl_mul rnd x x) out). y = Finite 0"
    using assms(1) assms(3) by auto
  then have "fsum (map (\<lambda>x. fl_mul rnd x x) out) = Finite 0"
    using assms(2) by blast
  then show ?thesis by (simp add: normalizer_def assms(1))
qed

lemma fl_div_zero_not_finite: "\<not> is_finite (fl_div rnd x (Finite 0))"
  by (cases x) (simp_all add: infinity_def)

text \<open>
  C2, as the code has it. Each feature row is divided by its computed L2 norm, the
  square root of the sum of its squares, with no floor. Whenever that norm is zero
  every entry of the row is divided by exactly zero and none of the results is a
  finite number; the norm is zero for a row whose entries are all zero, and then
  every result is not a number. No error is raised. Of the arithmetic only this is
  assumed: zero rounds to zero, and a sum of zeros is zero.
\<close>

theorem C2_normalisation_without_floor:
  "normalize_row rnd fsum out
      = map (\<lambda>x. fl_div rnd x (fl_sqrt rnd (fsum (map (\<lambda>x. fl_mul rnd x x) out)))) out
   \<and> (normalizer rnd fsum out = Finite 0 \<longrightarrow>
        normalize_row rnd fsum out = map (\<lambda>x. fl_div rnd x (Finite 0)) out
      \<and> (\<forall>y \<in> set (normalize_row rnd fsum out). \<not> is_finite y))
   \<and> (rnd 0 = Finite 0
      \<and> (\<forall>xs. (\<forall>x \<in> set xs. x = Finite 0) \<longrightarrow> fsum xs = Finite 0)
      \<and> (\<forall>x \<in> set out. x = Finite 0) \<longrightarrow>
        normalizer rnd fsum out = Finite 0
      \<and> normalize_row rnd fsum out = map (\<lambda>x. NaN) out)"
proof (intro conjI impI)
  show "normalize_row rnd fsum out
      = map (\<lambda>x. fl_div rnd x (fl_sqrt rnd (fsum (map (\<lambda>x. fl_mul rnd x x) out)))) out"
    by (simp add: normalize_row_def normalizer_def)
next
  assume "normalizer rnd fsum out = Finite 0"
  then show "normalize_row rnd fsum out = map (\<lambda>x. fl_div rnd x (Finite 0)) out"
    by (simp add: normalize_row_def)
next
  assume "normalizer rnd fsum out = Finite 0"
  then show "\<forall>y \<in> set (normalize_row rnd fsum out). \<not> is_finite y"
    by (auto simp: normalize_row_def fl_div_zero_not_finite)
next
  assume a: "rnd 0 = Finite 0
      \<and> (\<forall>xs. (\<forall>x \<in> set xs. x = Finite 0) \<longrightarrow> fsum xs = Finite 0)
      \<and> (\<forall>x \<in> set out. x = Finite 0)"
  then show z: "normalizer rnd fsum out = Finite 0"
    by (intro normalizer_zeros) blast+
  have "\<forall>x \<in> set out. fl_div rnd x (normalizer rnd fsum out) = NaN"
  proof
    fix x assume "x \<in> set out"
    then have "x = Finite 0" using a by blast
    then show "fl_div rnd x (normalizer rnd fsum out) = NaN" using z by simp
  qed
  then show "normalize_row rnd fsum out = map (\<lambda>x. NaN) out"
    by (simp add: normalize_row_def)
qed

theorem C2_normalisation_without_floor_witness:
  "round_range 0 = Finite 0
   \<and> fl_sum round_range [Finite 0, Finite 0] = Finite 0
   \<and> normalizer round_range (fl_sum round_range) [Finite 0, Finite 0] = Finite 0
   \<and> normalize_row round_range (fl_sum round_range) [Finite 0, Finite 0] = [NaN, NaN]
   \<and> normalizer round_range (fl_sum round_range) [Finite (1 / 2 ^ 600), Finite 0] = Finite 0
   \<and> normalize_row round_range (fl_sum round_range) [Finite (1 / 2 ^ 600), Finite 0]
       = [PosInf, NaN]"
proof -
  have r: "round_range 0 = Finite 0" by (simp add: round_range_def)
  have s: "\<forall>xs. (\<forall>x \<in> set xs. x = Finite 0) \<longrightarrow> fl_sum round_range xs = Finite 0"
    using fl_sum_zeros [where rnd = round_range] r by blast
  have s0: "fl_sum round_range [Finite 0, Finite 0] = Finite 0"
    using s by simp
  have n: "normalizer round_range (fl_sum round_range) [Finite (1 / 2 ^ 600), Finite 0] = Finite 0"
    by (simp add: normalizer_def fl_sum_def round_range_def)
  have z: "normalizer round_range (fl_sum round_range) [Finite 0, Finite 0] = Finite 0
      \<and> normalize_row round_range (fl_sum round_range) [Finite 0, Finite 0] = [NaN, NaN]"
    using C2_normalisation_without_floor
        [of round_range "fl_sum round_range" "[Finite 0, Finite 0]",
         THEN conjunct2, THEN conjunct2] r s
    by simp
  have u: "normalize_row round_range (fl_sum round_range) [Finite (1 / 2 ^ 600), Finite 0]
      = [PosInf, NaN]"
    using C2_normalisation_without_floor
        [of round_range "fl_sum round_range" "[Finite (1 / 2 ^ 600), Finite 0]",
         THEN conjunct2, THEN conjunct1] n
    by (simp add: infinity_def)
  from r s0 z n u show ?thesis by blast
qed

text \<open>
  C2, as stated, says that a floor keeps the denominator of the row normalisation
  away from zero. For the one-phase input with \<^verbatim>\<open>power_function\<close> value 1 and
  \<^verbatim>\<open>inv_harish_chandra\<close> value 0 the feature row is \<open>[0, 0]\<close>, the denominator is
  exactly 0 and the normalised row is not a number in both entries.
\<close>

theorem C2_zero_row_divides_by_zero_counterexample:
  "features_row round_range [(Finite 1, Finite 0)] [Finite 0] = [Finite 0, Finite 0]
   \<and> normalizer round_range (fl_sum round_range)
         (features_row round_range [(Finite 1, Finite 0)] [Finite 0]) = Finite 0
   \<and> random_phase_features round_range (fl_sum round_range) [[(Finite 1, Finite 0)]] [Finite 0]
       = [[NaN, NaN]]"
  by (simp add: random_phase_features_def normalize_row_def normalizer_def features_row_def
        fl_sum_def round_range_def)

section \<open>Properties of deterministic wrappers\<close>

lemma make_deterministic_no_key:
  "''key'' \<notin> set (args f) \<Longrightarrow> ''key'' \<notin> set (kwonlyargs f) \<Longrightarrow>
     make_deterministic get_random_state restore_random_state f key s0 = f"
  by (simp add: make_deterministic_def)

lemma make_deterministic_pos:
  "''key'' \<in> set (args f) \<Longrightarrow>
     make_deterministic get_random_state restore_random_state f key s0
       = \<lparr>args = [], kwonlyargs = [],
          body = deterministic_f restore_random_state f key (get_random_state key s0) KeyPos
                   (list_index (args f) ''key'')\<rparr>"
  by (simp add: make_deterministic_def)

lemma make_deterministic_kwonly:
  "''key'' \<notin> set (args f) \<Longrightarrow> ''key'' \<in> set (kwonlyargs f) \<Longrightarrow>
     make_deterministic get_random_state restore_random_state f key s0
       = \<lparr>args = [], kwonlyargs = [],
          body = deterministic_f restore_random_state f key (get_random_state key s0) KeyKwonly
                   (list_index (args f) ''key'')\<rparr>"
  by (simp add: make_deterministic_def)

lemma view_plain: "is_Val x \<Longrightarrow> view get_random_state s x = view get_random_state s' x"
  by (cases x) simp_all

lemma view_plain_list:
  "\<forall>x \<in> set as. is_Val x \<Longrightarrow> map (view get_random_state s) as = map (view get_random_state s') as"
  by (induction as) (auto intro: view_plain)

lemma view_plain_kwargs:
  assumes "\<forall>x \<in> ran kw. is_Val x"
  shows "map_option (view get_random_state s) \<circ> kw = map_option (view get_random_state s') \<circ> kw"
proof
  fix k
  show "(map_option (view get_random_state s) \<circ> kw) k = (map_option (view get_random_state s') \<circ> kw) k"
  proof (cases "kw k")
    case None
    then show ?thesis by simp
  next
    case (Some x)
    then have "is_Val x" using assms by (auto simp: ran_def)
    with Some show ?thesis by (simp add: view_plain [of x get_random_state s s'])
  qed
qed

lemma deterministic_f_result:
  fixes g :: "('st, 'v) pyval list \<Rightarrow> (string \<rightharpoonup> ('st, 'v) pyval) \<Rightarrow> 'r"
  assumes restore: "\<And>s. get_random_state (fst (restore_random_state key saved s))
                         (snd (restore_random_state key saved s)) = saved"
    and f_sees: "\<And>as kw s. fst (body f as kw s)
                   = g (map (view get_random_state s) as) (map_option (view get_random_state s) \<circ> kw)"
    and plain: "\<forall>x \<in> set as. is_Val x" "\<forall>x \<in> ran kwargs. is_Val x"
  shows "fst (deterministic_f restore_random_state f key saved t p as kwargs s)
       = (case t of
            KeyKwonly \<Rightarrow> g (map (view get_random_state w) as)
                           ((map_option (view get_random_state w) \<circ> kwargs)(''key'' \<mapsto> KeyVal saved))
          | KeyPos \<Rightarrow> g (map (view get_random_state w) (take p as) @ [KeyVal saved]
                           @ map (view get_random_state w) (drop p as))
                         (map_option (view get_random_state w) \<circ> kwargs))"
proof -
  obtain rk s1 where r: "restore_random_state key saved s = (rk, s1)"
    by (cases "restore_random_state key saved s")
  have g: "get_random_state rk s1 = saved" using restore [of s] r by simp
  have a: "map (view get_random_state s1) as = map (view get_random_state w) as"
    using plain(1) by (rule view_plain_list)
  have a1: "map (view get_random_state s1) (take p as) = map (view get_random_state w) (take p as)"
    using a by (simp only: take_map [symmetric])
  have a2: "map (view get_random_state s1) (drop p as) = map (view get_random_state w) (drop p as)"
    using a by (simp only: drop_map [symmetric])
  have k: "map_option (view get_random_state s1) \<circ> kwargs
         = map_option (view get_random_state w) \<circ> kwargs"
    using plain(2) by (rule view_plain_kwargs)
  have k1: "map_option (view get_random_state s1) \<circ> (kwargs(''key'' \<mapsto> KeyVal rk))
         = (map_option (view get_random_state s1) \<circ> kwargs)(''key'' \<mapsto> KeyVal saved)"
    using g by (auto simp: fun_eq_iff)
  show ?thesis
  proof (cases t)
    case KeyPos
    then show ?thesis
      by (simp add: deterministic_f_def r f_sees a1 a2 k g)
  next
    case KeyKwonly
    then show ?thesis
      by (simp add: deterministic_f_def r f_sees a k1 k g)
  qed
qed

text \<open>
  C9. If \<open>f\<close> has no parameter named \<^verbatim>\<open>key\<close>, positional or keyword-only,
  \<^verbatim>\<open>make_deterministic(f, key)\<close> is \<open>f\<close> itself. Otherwise every invocation of the
  returned function first restores the random state that \<^verbatim>\<open>key\<close> had when
  \<^verbatim>\<open>make_deterministic\<close> was called and passes the restored key to \<open>f\<close>: inserted at the
  position of \<^verbatim>\<open>key\<close> among the positional parameters, or as the keyword argument
  \<^verbatim>\<open>key\<close>. Hence two invocations in any two worlds with the same remaining
  arguments return the same result. The hypotheses say what the claim takes for
  granted: restoring a state yields a key in that state, the result of \<open>f\<close> depends on
  the world only through the random state of the keys it is given, and the remaining
  arguments hold no random key.
\<close>

theorem C9_make_deterministic:
  fixes g :: "('st, 'v) pyval list \<Rightarrow> (string \<rightharpoonup> ('st, 'v) pyval) \<Rightarrow> 'r"
    and f :: "('k, 'v, 's, 'r) pyfun"
  assumes restore: "\<And>s. get_random_state (fst (restore_random_state key (get_random_state key s0) s))
                         (snd (restore_random_state key (get_random_state key s0) s))
                       = get_random_state key s0"
    and f_sees: "\<And>as kw s. fst (body f as kw s)
                   = g (map (view get_random_state s) as) (map_option (view get_random_state s) \<circ> kw)"
    and plain: "\<forall>x \<in> set as. is_Val x" "\<forall>x \<in> ran kwargs. is_Val x"
  shows "(''key'' \<notin> set (args f) \<and> ''key'' \<notin> set (kwonlyargs f) \<longrightarrow>
            make_deterministic get_random_state restore_random_state f key s0 = f)
       \<and> (''key'' \<in> set (args f) \<longrightarrow>
            body (make_deterministic get_random_state restore_random_state f key s0) as kwargs s1
              = (let (restored_key, s) = restore_random_state key (get_random_state key s0) s1
                 in body f (take (list_index (args f) ''key'') as @ [KeyVal restored_key]
                             @ drop (list_index (args f) ''key'') as) kwargs s))
       \<and> (''key'' \<notin> set (args f) \<and> ''key'' \<in> set (kwonlyargs f) \<longrightarrow>
            body (make_deterministic get_random_state restore_random_state f key s0) as kwargs s1
              = (let (restored_key, s) = restore_random_state key (get_random_state key s0) s1
                 in body f as (kwargs(''key'' \<mapsto> KeyVal restored_key)) s))
       \<and> (''key'' \<in> set (args f) \<or> ''key'' \<in> set (kwonlyargs f) \<longrightarrow>
            fst (body (make_deterministic get_random_state restore_random_state f key s0) as kwargs s1)
              = fst (body (make_deterministic get_random_state restore_random_state f key s0) as kwargs s2))"
proof (intro conjI impI)
  assume "''key'' \<notin> set (args f) \<and> ''key'' \<notin> set (kwonlyargs f)"
  then show "make_deterministic get_random_state restore_random_state f key s0 = f"
    by (simp add: make_deterministic_no_key)
next
  assume "''key'' \<in> set (args f)"
  then show "body (make_deterministic get_random_state restore_random_state f key s0) as kwargs s1
              = (let (restored_key, s) = restore_random_state key (get_random_state key s0) s1
                 in body f (take (list_index (args f) ''key'') as @ [KeyVal restored_key]
                             @ drop (list_index (args f) ''key'') as) kwargs s)"
    by (simp add: make_deterministic_pos deterministic_f_def)
next
  assume "''key'' \<notin> set (args f) \<and> ''key'' \<in> set (kwonlyargs f)"
  then show "body (make_deterministic get_random_state restore_random_state f key s0) as kwargs s1
              = (let (restored_key, s) = restore_random_state key (get_random_state key s0) s1
                 in body f as (kwargs(''key'' \<mapsto> KeyVal restored_key)) s)"
    by (simp add: make_deterministic_kwonly deterministic_f_def)
next
  assume has: "''key'' \<in> set (args f) \<or> ''key'' \<in> set (kwonlyargs f)"
  let ?d = "make_deterministic get_random_state restore_random_state f key s0"
  obtain t where d: "body ?d = deterministic_f restore_random_state f key
      (get_random_state key s0) t (list_index (args f) ''key'')"
  proof (cases "''key'' \<in> set (args f)")
    case True
    then show ?thesis using that [of KeyPos] by (simp add: make_deterministic_pos)
  next
    case False
    with has show ?thesis using that [of KeyKwonly] by (simp add: make_deterministic_kwonly)
  qed
  have "fst (body ?d as kwargs s1) = fst (body ?d as kwargs s2)"
    unfolding d
    using deterministic_f_result [where g = g and w = s0 and s = s1 and f = f and key = key
        and get_random_state = get_random_state and restore_random_state = restore_random_state
        and saved = "get_random_state key s0", OF restore f_sees plain]
      deterministic_f_result [where g = g and w = s0 and s = s2 and f = f and key = key
        and get_random_state = get_random_state and restore_random_state = restore_random_state
        and saved = "get_random_state key s0", OF restore f_sees plain]
    by simp
  then show "fst (body ?d as kwargs s1) = fst (body ?d as kwargs s2)" .
qed

lemma draw_sees:
  "fst (body draw as kw s)
     = draw_result (map (view np_get_random_state s) as) (map_option (view np_get_random_state s) \<circ> kw)"
  by (auto simp: draw_def draw_result_def np_get_random_state_def split: list.splits pyval.splits)

theorem C9_make_deterministic_witness:
  "''key'' \<in> set (args draw)
   \<and> fst (body draw [Val 10, KeyVal 0] Map.empty (\<lambda>_. 5)) = 15
   \<and> fst (body draw [Val 10, KeyVal 0] Map.empty
             (snd (body draw [Val 10, KeyVal 0] Map.empty (\<lambda>_. 5)))) = 16
   \<and> fst (body (make_deterministic np_get_random_state np_restore_random_state draw 0 (\<lambda>_. 5))
             [Val 10] Map.empty (\<lambda>_. 5)) = 15
   \<and> fst (body (make_deterministic np_get_random_state np_restore_random_state draw 0 (\<lambda>_. 5))
             [Val 10] Map.empty
             (snd (body (make_deterministic np_get_random_state np_restore_random_state draw 0 (\<lambda>_. 5))
                [Val 10] Map.empty (\<lambda>_. 5)))) = 15
   \<and> make_deterministic np_get_random_state np_restore_random_state
         (draw\<lparr>args := [''x'', ''seed'']\<rparr>) 0 (\<lambda>_. 5) = draw\<lparr>args := [''x'', ''seed'']\<rparr>"
proof -
  have r: "\<And>s. np_get_random_state
              (fst (np_restore_random_state 0 (np_get_random_state 0 (\<lambda>_. 5)) s))
              (snd (np_restore_random_state 0 (np_get_random_state 0 (\<lambda>_. 5)) s))
            = np_get_random_state 0 (\<lambda>_. 5)"
    by (simp add: np_get_random_state_def np_restore_random_state_def)
  have p1: "\<forall>x \<in> set [Val 10 :: (nat, int) pyval]. is_Val x" by simp
  have p2: "\<forall>x \<in> ran (Map.empty :: string \<rightharpoonup> (nat, int) pyval). is_Val x" by simp
  have first: "fst (body (make_deterministic np_get_random_state np_restore_random_state draw 0 (\<lambda>_. 5))
             [Val 10] Map.empty (\<lambda>_. 5)) = 15"
    by (simp add: make_deterministic_def deterministic_f_def draw_def
          np_get_random_state_def np_restore_random_state_def)
  have nokey: "make_deterministic np_get_random_state np_restore_random_state
         (draw\<lparr>args := [''x'', ''seed'']\<rparr>) 0 (\<lambda>_. 5) = draw\<lparr>args := [''x'', ''seed'']\<rparr>"
    by (simp add: make_deterministic_def draw_def)
  have plain: "fst (body draw [Val 10, KeyVal 0] Map.empty (\<lambda>_. 5)) = 15
     \<and> fst (body draw [Val 10, KeyVal 0] Map.empty
             (snd (body draw [Val 10, KeyVal 0] Map.empty (\<lambda>_. 5)))) = 16"
    by (simp add: draw_def)
  have k: "''key'' \<in> set (args draw)" by (simp add: draw_def)
  let ?d = "make_deterministic np_get_random_state np_restore_random_state draw 0 (\<lambda>_. 5)"
  let ?s2 = "snd (body ?d [Val 10] Map.empty (\<lambda>_. 5))"
  have "fst (body ?d [Val 10] Map.empty (\<lambda>_. 5)) = fst (body ?d [Val 10] Map.empty ?s2)"
    using C9_make_deterministic [where g = draw_result and f = draw and key = 0 and ?s0.0 = "\<lambda>_. 5"
        and get_random_state = np_get_random_state
        and restore_random_state = np_restore_random_state
        and as = "[Val 10]" and kwargs = Map.empty and ?s1.0 = "\<lambda>_. 5" and ?s2.0 = ?s2,
        OF r draw_sees p1 p2] k
    by blast
  with first have second: "fst (body ?d [Val 10] Map.empty ?s2) = 15"
    by (simp only:)
  from k plain first second nokey show ?thesis
    by blast
qed


end
